theory Spec2Isabelle
  imports Main "HOL-Library.Multiset" "HOL-Library.List_Lexorder" "HOL-Library.Char_ord"
begin

section \<open>Execution metadata: history and rollback candidates\<close>

text \<open>
  An execution record is the content of one \<^verbatim>\<open>execution_data.yml\<close>. The two fields the
  history queries read are optional (\<^verbatim>\<open>dict.get\<close> returns \<^verbatim>\<open>None\<close> for a missing key);
  the other fields, among them \<^verbatim>\<open>local_creation_date\<close> and \<^verbatim>\<open>local_creation_time\<close>, are
  kept by key.
\<close>

record execution_data =
  execution_id :: "string option"
  exit_code :: "string option"
  other_fields :: "(string \<times> string) list"

text \<open>\<^verbatim>\<open>list_successful_exit_codes\<close> of \<^verbatim>\<open>utils.py\<close>.\<close>

definition list_successful_exit_codes :: "string list" where
  "list_successful_exit_codes = [''USER_TF_EXEC_COMMIT'', ''USER_TF_EXEC_DESTROY'']"

text \<open>The sort key \<^verbatim>\<open>lambda execution: execution.get('execution_id', '')\<close>.\<close>

definition execution_sort_key :: "execution_data \<Rightarrow> string" where
  "execution_sort_key e = (case execution_id e of None \<Rightarrow> [] | Some i \<Rightarrow> i)"

text \<open>
  Python's \<^verbatim>\<open>sorted(xs, key=k, reverse=True)\<close> is stable: it reverses, sorts stably in
  ascending order and reverses again. \<^const>\<open>sort_key\<close> is a stable insertion sort.
\<close>

definition sorted_reverse :: "('a \<Rightarrow> 'k::linorder) \<Rightarrow> 'a list \<Rightarrow> 'a list" where
  "sorted_reverse k xs = rev (sort_key k (rev xs))"

text \<open>
  The tail of \<^verbatim>\<open>generate_execution_history\<close>: of the metadata files loaded while walking
  the tree (in listing order), those without an \<^verbatim>\<open>execution_id\<close> are skipped, and the
  list is sorted by \<^verbatim>\<open>execution_id\<close>, latest first.
\<close>

definition generate_execution_history :: "execution_data list \<Rightarrow> execution_data list" where
  "generate_execution_history loaded =
     sorted_reverse execution_sort_key (filter (\<lambda>e. execution_id e \<noteq> None) loaded)"

text \<open>
  \<^verbatim>\<open>get_project_execution_history\<close> returns \<^verbatim>\<open>None\<close> for an empty history.
\<close>

definition get_project_execution_history :: "execution_data list \<Rightarrow> execution_data list option" where
  "get_project_execution_history loaded =
     (let execution_data = generate_execution_history loaded
      in if execution_data \<noteq> [] then Some execution_data else None)"

text \<open>The filter of \<^verbatim>\<open>get_project_rollback_history\<close>.\<close>

definition rollback_eligible :: "string \<Rightarrow> execution_data \<Rightarrow> bool" where
  "rollback_eligible current_id e \<longleftrightarrow>
     (case exit_code e of None \<Rightarrow> False | Some c \<Rightarrow> c \<in> set list_successful_exit_codes)
     \<and> execution_id e \<noteq> Some current_id"

text \<open>
  \<^verbatim>\<open>get_project_rollback_history\<close>: the value it stores in
  \<^verbatim>\<open>project_execution_history_for_rollback\<close>, from the current execution id and the
  \<^verbatim>\<open>project_execution_history\<close> attribute (\<^verbatim>\<open>None\<close> when unset or empty).
\<close>

definition get_project_rollback_history ::
  "string \<Rightarrow> execution_data list option \<Rightarrow> execution_data list" where
  "get_project_rollback_history current_id project_execution_history =
     (case project_execution_history of
        None \<Rightarrow> []
      | Some h \<Rightarrow>
          if h = [] then []
          else sorted_reverse execution_sort_key (filter (rollback_eligible current_id) h))"

section \<open>Remote controller: retry and poll protocol\<close>

text \<open>
  The controller answers each HTTP request with a status code. A function of the
  repository that talks to one endpoint issues its requests one after the other; the model
  numbers them \<open>0, 1, 2, \<dots>\<close> and takes the controller's behaviour as a function from the
  request number to the status code answered. \<^verbatim>\<open>time.sleep\<close> has no effect on the result.
\<close>

type_synonym responses = "nat \<Rightarrow> nat"

datatype error =
    HTTPError nat
  | Poll_Limit
  | Max_Retries
  | NameError
  | TypeError
  | ValueError

text \<open>
  A function whose body is wrapped in \<^verbatim>\<open>try: ... except Exception as e: logger.error(...)\<close>
  either returns a value or logs the error and returns \<^verbatim>\<open>None\<close>.
\<close>

datatype 'a handled = Returns 'a | Logs_Error error

text \<open>\<^verbatim>\<open>response.raise_for_status()\<close> raises for the 4xx and 5xx codes only.\<close>

definition http_error :: "nat \<Rightarrow> bool" where
  "http_error s \<longleftrightarrow> 400 \<le> s \<and> s < 600"

definition max_retries :: nat where
  "max_retries = 3"

definition max_poll_attempts :: nat where
  "max_poll_attempts = 10"

subsection \<open>\<^verbatim>\<open>deploy_bp\<close>: the commit request\<close>

text \<open>
  The poll loop of \<^verbatim>\<open>deploy_bp\<close>, from request number \<open>k\<close> with \<open>n\<close> attempts left. The
  result is \<^verbatim>\<open>commit_completed\<close> and the number of the next request, or the exception
  raised by \<^verbatim>\<open>raise_for_status\<close>. A status that is neither 202 nor 409 nor an HTTP error
  falls through \<^verbatim>\<open>raise_for_status\<close> and the loop goes on.
\<close>

fun deploy_poll :: "responses \<Rightarrow> nat \<Rightarrow> nat \<Rightarrow> error + (bool \<times> nat)" where
  "deploy_poll remote k 0 = Inr (False, k)"
| "deploy_poll remote k (Suc n) =
     (if remote k = 202 then Inr (True, Suc k)
      else if remote k = 409 then deploy_poll remote (Suc k) n
      else if http_error (remote k) then Inl (HTTPError (remote k))
      else deploy_poll remote (Suc k) n)"

text \<open>
  The retry loop around the initial request, with \<open>n\<close> attempts left and the current value
  of \<^verbatim>\<open>commit_completed\<close>.
\<close>

fun deploy_attempts :: "responses \<Rightarrow> nat \<Rightarrow> nat \<Rightarrow> bool \<Rightarrow> error + (bool \<times> nat)" where
  "deploy_attempts remote k 0 commit_completed = Inr (commit_completed, k)"
| "deploy_attempts remote k (Suc n) commit_completed =
     (if commit_completed then Inr (commit_completed, k)
      else if remote k = 202 then
        (case deploy_poll remote (Suc k) max_poll_attempts of
           Inl e \<Rightarrow> Inl e
         | Inr (completed, k') \<Rightarrow>
             if \<not> completed then Inl Poll_Limit
             else deploy_attempts remote k' n completed)
      else if remote k = 409 then deploy_attempts remote (Suc k) n commit_completed
      else if http_error (remote k) then Inl (HTTPError (remote k))
      else deploy_attempts remote (Suc k) n commit_completed)"

subsection \<open>Time Voyager revisions\<close>

record revision =
  revision_id :: string
  description :: string
  created_at :: "string option"
  user_saved :: bool

definition is_digit :: "char \<Rightarrow> bool" where
  "is_digit c \<longleftrightarrow> CHR ''0'' \<le> c \<and> c \<le> CHR ''9''"

text \<open>\<^verbatim>\<open>int(s)\<close> for a string of decimal digits.\<close>

definition int_of_digits :: "string \<Rightarrow> nat" where
  "int_of_digits s = foldl (\<lambda>a c. 10 * a + (of_char c - 48)) 0 s"

text \<open>
  \<^verbatim>\<open>datetime.strptime(s, "%Y-%m-%dT%H:%M:%S.%fZ")\<close>, which \<^verbatim>\<open>deploy_bp\<close> and
  \<^verbatim>\<open>remove_revision\<close> apply to the \<^verbatim>\<open>created_at\<close> of a revision. The format is turned into
  a regular expression that has to match the whole string, letters without regard to
  case: four digits for \<^verbatim>\<open>%Y\<close>; \<^verbatim>\<open>1[0-2]|0[1-9]|[1-9]\<close> for \<^verbatim>\<open>%m\<close>;
  \<^verbatim>\<open>3[0-1]|[1-2]\d|0[1-9]|[1-9]| [1-9]\<close> for \<^verbatim>\<open>%d\<close>; \<^verbatim>\<open>2[0-3]|[0-1]\d|\d\<close> for \<^verbatim>\<open>%H\<close>;
  \<^verbatim>\<open>[0-5]\d|\d\<close> for \<^verbatim>\<open>%M\<close>; \<^verbatim>\<open>6[0-1]|[0-5]\d|\d\<close> for \<^verbatim>\<open>%S\<close>; one to six digits for
  \<^verbatim>\<open>%f\<close>. Every field is followed by a character that is not a digit, so it is the run of
  characters up to that delimiter. The date and the time are then built, which fails for
  the year 0, for a day the month does not have, and for a second above 59. \<open>None\<close> is the
  \<^verbatim>\<open>ValueError\<close>.
\<close>

fun split_fields :: "(char \<Rightarrow> bool) list \<Rightarrow> string \<Rightarrow> string list option" where
  "split_fields [] s = Some [s]"
| "split_fields (P # Ps) s =
     (case dropWhile (\<lambda>c. \<not> P c) s of
        [] \<Rightarrow> None
      | c # rest \<Rightarrow>
          (case split_fields Ps rest of
             None \<Rightarrow> None
           | Some fs \<Rightarrow> Some (takeWhile (\<lambda>c. \<not> P c) s # fs)))"

text \<open>\<^verbatim>\<open>int(s)\<close> as a Python integer.\<close>

definition py_int :: "string \<Rightarrow> int" where
  "py_int s = foldl (\<lambda>a c. 10 * a + (of_char c - 48)) 0 s"

definition digits_upto :: "nat \<Rightarrow> int \<Rightarrow> int \<Rightarrow> string \<Rightarrow> bool" where
  "digits_upto len lo hi s \<longleftrightarrow>
     s \<noteq> [] \<and> length s \<le> len \<and> list_all is_digit s \<and> lo \<le> py_int s \<and> py_int s \<le> hi"

definition directive_d :: "string \<Rightarrow> bool" where
  "directive_d s \<longleftrightarrow>
     digits_upto 2 1 31 s
     \<or> (length s = 2 \<and> hd s = CHR '' '' \<and> digits_upto 1 1 9 (tl s))"

definition days_in_month :: "int \<Rightarrow> int \<Rightarrow> int" where
  "days_in_month year month =
     (if month = 2
      then (if year mod 4 = 0 \<and> (year mod 100 \<noteq> 0 \<or> year mod 400 = 0) then 29 else 28)
      else if month = 4 \<or> month = 6 \<or> month = 9 \<or> month = 11 then 30 else 31)"

definition strptime :: "string \<Rightarrow> (int \<times> int \<times> int \<times> int \<times> int \<times> int \<times> int) option" where
  "strptime s =
     (case split_fields
             [\<lambda>c. c = CHR ''-'', \<lambda>c. c = CHR ''-'', \<lambda>c. c = CHR ''T'' \<or> c = CHR ''t'',
              \<lambda>c. c = CHR '':'', \<lambda>c. c = CHR '':'', \<lambda>c. c = CHR ''.'',
              \<lambda>c. c = CHR ''Z'' \<or> c = CHR ''z''] s of
        Some [Y, m, d, H, M, S, f, rest] \<Rightarrow>
          (let year = py_int Y;
               month = py_int m;
               day = py_int (filter is_digit d);
               second = py_int S
           in if rest = [] \<and> length Y = 4 \<and> list_all is_digit Y
                 \<and> digits_upto 2 1 12 m \<and> directive_d d \<and> digits_upto 2 0 23 H
                 \<and> digits_upto 2 0 59 M \<and> digits_upto 2 0 61 S \<and> digits_upto 6 0 999999 f
                 \<and> 1 \<le> year \<and> day \<le> days_in_month year month \<and> second \<le> 59
              then Some (year, month, day, py_int H, py_int M, second,
                         py_int (f @ replicate (6 - length f) (CHR ''0'')))
              else None)
      | _ \<Rightarrow> None)"

text \<open>
  What the two functions do with \<^verbatim>\<open>created_at\<close> before they go on: a timestamp that is
  missing or empty is not parsed.
\<close>

definition timestamp_raises :: "revision \<Rightarrow> bool" where
  "timestamp_raises r \<longleftrightarrow>
     (case created_at r of
        None \<Rightarrow> False
      | Some revision_timestamp \<Rightarrow>
          revision_timestamp \<noteq> [] \<and> strptime revision_timestamp = None)"

text \<open>\<^verbatim>\<open>max_permanent_revisions\<close> of \<^verbatim>\<open>utils.py\<close>.\<close>

definition max_permanent_revisions :: nat where
  "max_permanent_revisions = 25"

text \<open>\<^verbatim>\<open>get_revision\<close>: the first revision with the given description, if any.\<close>

definition get_revision :: "revision list \<Rightarrow> string \<Rightarrow> revision option" where
  "get_revision list_bp_revisions commit_comment =
     find (\<lambda>item. description item = commit_comment) list_bp_revisions"

definition get_permanent_revisions :: "revision list \<Rightarrow> revision list" where
  "get_permanent_revisions list_bp_revisions = filter user_saved list_bp_revisions"

text \<open>Python's \<^verbatim>\<open>min(xs, key=k)\<close> returns the first element whose key is minimal.\<close>

fun min_by :: "('a \<Rightarrow> 'k::linorder) \<Rightarrow> 'a \<Rightarrow> 'a list \<Rightarrow> 'a" where
  "min_by k m [] = m"
| "min_by k m (x # xs) = min_by k (if k x < k m then x else m) xs"

definition created_at_key :: "revision \<Rightarrow> string" where
  "created_at_key r =
     (case created_at r of None \<Rightarrow> ''9999-12-31T23:59:59Z'' | Some t \<Rightarrow> t)"

text \<open>
  \<^verbatim>\<open>get_oldest_revision\<close>: the minimum is taken over the whole revision list of the
  blueprint. \<^verbatim>\<open>None\<close> stands for the empty dictionary returned when there is no revision.
\<close>

definition get_oldest_revision :: "revision list \<Rightarrow> revision option" where
  "get_oldest_revision list_bp_revisions =
     (case list_bp_revisions of
        [] \<Rightarrow> None
      | r # rs \<Rightarrow> Some (min_by created_at_key r rs))"

text \<open>
  The two state-changing revision endpoints belong to the controller, not to the
  repository. They are taken to do what they are called for: \<^verbatim>\<open>DELETE .../revisions/<id>\<close>
  removes the revision with that id, \<^verbatim>\<open>POST .../revisions/<id>/keep\<close> marks it
  \<^verbatim>\<open>user_saved\<close>.
\<close>

definition controller_delete_revision :: "string \<Rightarrow> revision list \<Rightarrow> revision list" where
  "controller_delete_revision rid tv = filter (\<lambda>r. revision_id r \<noteq> rid) tv"

definition controller_keep_revision :: "string \<Rightarrow> revision list \<Rightarrow> revision list" where
  "controller_keep_revision rid tv =
     map (\<lambda>r. if revision_id r = rid then r\<lparr>user_saved := True\<rparr> else r) tv"

text \<open>
  \<^verbatim>\<open>remove_revision\<close>: the timestamp of the revision is parsed before the \<^verbatim>\<open>DELETE\<close>
  request is sent; when the parsing raises, the handler logs the error and no request is
  made. \<open>None\<close> is the empty dictionary \<^verbatim>\<open>get_oldest_revision\<close> returns when there is no
  revision: it names no revision of the controller.
\<close>

definition remove_revision :: "revision option \<Rightarrow> revision list \<Rightarrow> revision list" where
  "remove_revision revision tv =
     (case revision of
        None \<Rightarrow> tv
      | Some r \<Rightarrow>
          if timestamp_raises r then tv
          else controller_delete_revision (revision_id r) tv)"

definition keep_revision :: "string \<Rightarrow> revision list \<Rightarrow> revision list" where
  "keep_revision rid tv = controller_keep_revision rid tv"

text \<open>
  The part of \<^verbatim>\<open>deploy_bp\<close> that runs once the commit has completed, on the blueprint's
  revision list \<open>tv\<close>: when the committed revision is found, the quota of permanent
  revisions is checked, the revision chosen by \<^verbatim>\<open>get_oldest_revision\<close> is removed if the
  quota is used up, and the new revision is kept under the staged version number. The
  timestamp of the committed revision is parsed first, for the log line: when that raises,
  the handler of \<^verbatim>\<open>deploy_bp\<close> logs the error and nothing is removed or kept.
\<close>

definition post_commit ::
  "string \<Rightarrow> string \<Rightarrow> revision list \<Rightarrow> unit handled \<times> revision list" where
  "post_commit version deploy_comment_w_execution_id tv =
     (case get_revision tv deploy_comment_w_execution_id of
        None \<Rightarrow> (Returns (), tv)
      | Some revision \<Rightarrow>
          if timestamp_raises revision then (Logs_Error ValueError, tv)
          else
            (let permanent_revisions = get_permanent_revisions tv;
                 tv' = (if length permanent_revisions \<ge> max_permanent_revisions
                        then remove_revision (get_oldest_revision tv) tv
                        else tv)
             in (Returns (), keep_revision version tv')))"

text \<open>
  \<^verbatim>\<open>deploy_bp\<close>: the requests, then either the logged error (the revision list is left
  alone) or the steps after the commit. The deploy comment is prefixed with the execution
  id read from the execution data file, when there is one.
\<close>

definition deploy_bp ::
  "responses \<Rightarrow> string option \<Rightarrow> string \<Rightarrow> string \<Rightarrow> revision list
     \<Rightarrow> unit handled \<times> revision list" where
  "deploy_bp remote stored_id version deploy_comment tv =
     (let deploy_comment_w_execution_id =
            (case stored_id of
               None \<Rightarrow> deploy_comment
             | Some i \<Rightarrow> if i = [] then deploy_comment else ''('' @ i @ '') '' @ deploy_comment)
      in case deploy_attempts remote 0 max_retries False of
           Inl e \<Rightarrow> (Logs_Error e, tv)
         | Inr (commit_completed, k) \<Rightarrow>
             if commit_completed
             then post_commit version deploy_comment_w_execution_id tv
             else (Logs_Error Max_Retries, tv))"

subsection \<open>\<^verbatim>\<open>revert_bp\<close>\<close>

text \<open>The poll loop of \<^verbatim>\<open>revert_bp\<close>; 408 is returned when the attempts run out.\<close>

fun revert_poll :: "responses \<Rightarrow> nat \<Rightarrow> nat \<Rightarrow> nat" where
  "revert_poll remote k 0 = 408"
| "revert_poll remote k (Suc n) =
     (if remote k = 202 then 202
      else if remote k = 409 then revert_poll remote (Suc k) n
      else remote k)"

text \<open>
  The retry loop of \<^verbatim>\<open>revert_bp\<close>. Its third branch reads \<^verbatim>\<open>poll_response\<close>, which is
  unbound whenever that branch is reached (the poll loop always returns): the
  \<^verbatim>\<open>NameError\<close> is caught by the function's handler, which returns 500.
\<close>

fun revert_attempts :: "responses \<Rightarrow> nat \<Rightarrow> nat \<Rightarrow> nat" where
  "revert_attempts remote k 0 = 409"
| "revert_attempts remote k (Suc n) =
     (if remote k = 202 then revert_poll remote (Suc k) max_poll_attempts
      else if remote k = 409 then revert_attempts remote (Suc k) n
      else 500)"

definition revert_bp :: "responses \<Rightarrow> nat" where
  "revert_bp remote = revert_attempts remote 0 max_retries"

subsection \<open>\<^verbatim>\<open>delete_bp\<close>\<close>

text \<open>
  The poll loop of \<^verbatim>\<open>delete_bp\<close>: \<open>Inr True\<close> when a poll answers 404, \<open>Inr False\<close> when the
  attempts run out.
\<close>

fun delete_poll :: "responses \<Rightarrow> nat \<Rightarrow> nat \<Rightarrow> error + bool" where
  "delete_poll remote k 0 = Inr False"
| "delete_poll remote k (Suc n) =
     (if remote k = 404 then Inr True
      else if remote k = 409 \<or> remote k = 405 then delete_poll remote (Suc k) n
      else if http_error (remote k) then Inl (HTTPError (remote k))
      else delete_poll remote (Suc k) n)"

fun delete_attempts :: "responses \<Rightarrow> nat \<Rightarrow> nat \<Rightarrow> error + bool" where
  "delete_attempts remote k 0 = Inl Max_Retries"
| "delete_attempts remote k (Suc n) =
     (if remote k = 202 then
        (case delete_poll remote (Suc k) max_poll_attempts of
           Inl e \<Rightarrow> Inl e
         | Inr True \<Rightarrow> Inr True
         | Inr False \<Rightarrow> Inl Poll_Limit)
      else if remote k = 409 \<or> remote k = 405 then delete_attempts remote (Suc k) n
      else if http_error (remote k) then Inl (HTTPError (remote k))
      else delete_attempts remote (Suc k) n)"

text \<open>\<^verbatim>\<open>delete_bp\<close> returns \<^verbatim>\<open>True\<close>, or logs the exception and returns \<^verbatim>\<open>None\<close>.\<close>

definition delete_bp :: "responses \<Rightarrow> bool handled" where
  "delete_bp remote =
     (case delete_attempts remote 0 max_retries of
        Inl e \<Rightarrow> Logs_Error e
      | Inr b \<Rightarrow> Returns b)"

subsection \<open>Statuses on which the loops go on\<close>

text \<open>
  Read off the three poll loops: the status codes on which a poll neither succeeds nor
  raises nor returns, so that the loop goes to its next attempt. The retry loops around
  the initial request go on for the same codes (with 202 as the accepting answer).
\<close>

definition deploy_keeps_polling :: "nat \<Rightarrow> bool" where
  "deploy_keeps_polling s \<longleftrightarrow> s \<noteq> 202 \<and> (s = 409 \<or> \<not> http_error s)"

definition revert_keeps_polling :: "nat \<Rightarrow> bool" where
  "revert_keeps_polling s \<longleftrightarrow> s = 409"

definition delete_keeps_polling :: "nat \<Rightarrow> bool" where
  "delete_keeps_polling s \<longleftrightarrow> s \<noteq> 404 \<and> (s = 409 \<or> s = 405 \<or> \<not> http_error s)"

definition delete_retries :: "nat \<Rightarrow> bool" where
  "delete_retries s \<longleftrightarrow> s \<noteq> 202 \<and> (s = 409 \<or> s = 405 \<or> \<not> http_error s)"

section \<open>Rollback: pending blueprint changes\<close>







section \<open>Execution directories: rotation in the wip area\<close>

text \<open>
  What \<^verbatim>\<open>manage_execution_dirs\<close> reads and writes in one \<^verbatim>\<open>execution_<N>\<close> directory: the
  execution data file, the snapshot of the input folder (\<^verbatim>\<open>yaml/input.tgz\<close>), the two
  reference copies beside it (\<^verbatim>\<open>.rollback\<close>, \<^verbatim>\<open>.reverted\<close>) and the tfstate file. A file
  that does not exist is \<open>None\<close>. The contents of files are left abstract.
\<close>

record ('i, 's, 'm) execution_dir =
  execution_data_file :: "'m option"
  input_tgz :: "'i option"
  input_tgz_rollback :: "'i option"
  input_tgz_reverted :: "'i option"
  tfstate_file :: "'s option"

text \<open>
  The listing of the wip path, restricted as the function restricts it to the
  directories named \<^verbatim>\<open>execution_<N>\<close>; each is identified by its number \<open>N\<close>, the value
  \<^verbatim>\<open>int(f.split('_')[1])\<close> the function sorts by.
\<close>

type_synonym ('i, 's, 'm) wip = "(nat \<times> ('i, 's, 'm) execution_dir) list"

text \<open>What one call finds outside the wip path.\<close>

record ('i, 'm) call_env =
  scope_data :: 'm
  input_folder :: "'i option"
  post_rollback :: bool
  input_tgz_reverted_file :: "'i option"

definition remove_directory :: "nat \<Rightarrow> ('i, 's, 'm) wip \<Rightarrow> ('i, 's, 'm) wip" where
  "remove_directory k w = filter (\<lambda>(j, d). j \<noteq> k) w"

text \<open>
  \<^verbatim>\<open>os.rename\<close> of a directory onto an existing one that is not empty raises; an
  execution directory is never empty.
\<close>

definition os_rename :: "nat \<Rightarrow> nat \<Rightarrow> ('i, 's, 'm) wip \<Rightarrow> ('i, 's, 'm) wip option" where
  "os_rename k k' w =
     (if k' \<in> fst ` set w then None
      else Some (map (\<lambda>(j, d). if j = k then (k', d) else (j, d)) w))"

text \<open>
  The renaming loop over the folders, highest number first. The flag tells whether the
  loop ran to its end; on an exception the directories stay as they are at that point.
\<close>

fun rotate :: "nat \<Rightarrow> nat list \<Rightarrow> ('i, 's, 'm) wip \<Rightarrow> ('i, 's, 'm) wip \<times> bool" where
  "rotate threshold [] w = (w, True)"
| "rotate threshold (folder_num # folders) w =
     (let new_dir_num = folder_num + 1
      in if new_dir_num > threshold
         then rotate threshold folders (remove_directory folder_num w)
         else (case os_rename folder_num new_dir_num w of
                 None \<Rightarrow> (w, False)
               | Some w' \<Rightarrow> rotate threshold folders w'))"

definition update_dir ::
  "nat \<Rightarrow> (('i, 's, 'm) execution_dir \<Rightarrow> ('i, 's, 'm) execution_dir)
     \<Rightarrow> ('i, 's, 'm) wip \<Rightarrow> ('i, 's, 'm) wip" where
  "update_dir k f w = map (\<lambda>(j, d). if j = k then (j, f d) else (j, d)) w"

definition new_execution_dir :: "'m \<Rightarrow> ('i, 's, 'm) execution_dir" where
  "new_execution_dir m =
     \<lparr>execution_data_file = Some m, input_tgz = None, input_tgz_rollback = None,
      input_tgz_reverted = None, tfstate_file = None\<rparr>"

text \<open>
  What \<^verbatim>\<open>execution_0\<close> receives from \<^verbatim>\<open>execution_1\<close>: the tfstate file and, as the
  rollback reference, the input snapshot, each if it exists; in a post-rollback run also
  the reverted snapshot kept outside the wip path.
\<close>

definition bring_from_previous ::
  "('i, 'm) call_env \<Rightarrow> ('i, 's, 'm) execution_dir \<Rightarrow> ('i, 's, 'm) execution_dir
     \<Rightarrow> ('i, 's, 'm) execution_dir" where
  "bring_from_previous env d1 d0 =
     (let a = (case tfstate_file d1 of None \<Rightarrow> d0 | Some t \<Rightarrow> d0\<lparr>tfstate_file := Some t\<rparr>);
          b = (case input_tgz d1 of None \<Rightarrow> a | Some i \<Rightarrow> a\<lparr>input_tgz_rollback := Some i\<rparr>)
      in if post_rollback env
         then (case input_tgz_reverted_file env of
                 None \<Rightarrow> b
               | Some r \<Rightarrow> b\<lparr>input_tgz_reverted := Some r\<rparr>)
         else b)"

text \<open>
  \<^verbatim>\<open>manage_execution_dirs\<close> at \<^verbatim>\<open>initial_stage\<close>, on the wip listing. An exception in the
  renaming loop is caught by the function's handler and ends the call.
\<close>

definition manage_execution_dirs ::
  "nat \<Rightarrow> ('i, 'm) call_env \<Rightarrow> ('i, 's, 'm) wip \<Rightarrow> ('i, 's, 'm) wip" where
  "manage_execution_dirs threshold env w =
     (let execution_dirs = sort (map fst w);
          (w1, completed) = rotate threshold (rev execution_dirs) w
      in if \<not> completed then w1
         else
           (let w2 = (if 0 \<in> fst ` set w1 then w1
                      else w1 @ [(0, new_execution_dir (scope_data env))]);
                w3 = (case input_folder env of
                        None \<Rightarrow> w2
                      | Some i \<Rightarrow> update_dir 0 (\<lambda>d. d\<lparr>input_tgz := Some i\<rparr>) w2)
            in case map_of w3 1 of
                 None \<Rightarrow> w3
               | Some d1 \<Rightarrow> update_dir 0 (bring_from_previous env d1) w3))"

section \<open>Configuration snapshots and the diff engine\<close>

subsection \<open>YAML values as Python sees them\<close>

text \<open>
  The value \<^verbatim>\<open>yaml.safe_load\<close> returns: \<^verbatim>\<open>None\<close>, a boolean, an integer, a string, a list
  or a dictionary with string keys. A dictionary keeps the order of its keys, which is
  the order \<^verbatim>\<open>items()\<close> iterates in, so it is an association list. Floating-point
  scalars are left out.
\<close>

datatype yaml =
    YNull
  | YBool bool
  | YInt int
  | YStr string
  | YList "yaml list"
  | YDict "(string \<times> yaml) list"

text \<open>Truth value of a Python object in \<^verbatim>\<open>if x:\<close>.\<close>

fun py_truthy :: "yaml \<Rightarrow> bool" where
  "py_truthy YNull = False"
| "py_truthy (YBool b) = b"
| "py_truthy (YInt i) = (i \<noteq> 0)"
| "py_truthy (YStr s) = (s \<noteq> [])"
| "py_truthy (YList xs) = (xs \<noteq> [])"
| "py_truthy (YDict d) = (d \<noteq> [])"

text \<open>
  Python's \<^verbatim>\<open>==\<close> on these values: a boolean equals the integer 0 or 1, lists are
  compared element by element, dictionaries key by key whatever the order of the keys.
\<close>

fun py_eq :: "yaml \<Rightarrow> yaml \<Rightarrow> bool" where
  "py_eq YNull YNull = True"
| "py_eq (YBool a) (YBool b) = (a = b)"
| "py_eq (YBool a) (YInt b) = ((if a then 1 else 0) = b)"
| "py_eq (YInt a) (YBool b) = (a = (if b then 1 else 0))"
| "py_eq (YInt a) (YInt b) = (a = b)"
| "py_eq (YStr a) (YStr b) = (a = b)"
| "py_eq (YList a) (YList b) = list_all2 py_eq a b"
| "py_eq (YDict a) (YDict b) =
     (length a = length b
      \<and> list_all (\<lambda>(k, v). case map_of b k of None \<Rightarrow> False | Some w \<Rightarrow> py_eq v w) a)"
| "py_eq _ _ = False"

text \<open>
  What \<^verbatim>\<open>for x in v\<close> and \<^verbatim>\<open>list.extend(v)\<close> iterate over: the elements of a list, the
  keys of a dictionary, the characters of a string; \<open>None\<close> is the \<^verbatim>\<open>TypeError\<close> raised
  for a value that is not iterable.
\<close>

fun py_iter :: "yaml \<Rightarrow> yaml list option" where
  "py_iter (YList xs) = Some xs"
| "py_iter (YDict d) = Some (map (\<lambda>(k, v). YStr k) d)"
| "py_iter (YStr s) = Some (map (\<lambda>c. YStr [c]) s)"
| "py_iter _ = None"

text \<open>\<^verbatim>\<open>d.get(k, dflt)\<close> on a dictionary.\<close>

definition dict_get :: "(string \<times> yaml) list \<Rightarrow> string \<Rightarrow> yaml \<Rightarrow> yaml" where
  "dict_get d k dflt = (case map_of d k of None \<Rightarrow> dflt | Some v \<Rightarrow> v)"

text \<open>
  The dictionary union \<^verbatim>\<open>a | b\<close>: the keys of \<open>a\<close> in their order, then the new keys of
  \<open>b\<close>; the values of \<open>b\<close> win.
\<close>

definition dict_union :: "(string \<times> yaml) list \<Rightarrow> (string \<times> yaml) list \<Rightarrow> (string \<times> yaml) list" where
  "dict_union a b =
     map (\<lambda>(k, v). (k, dict_get b k v)) a @ filter (\<lambda>(k, v). k \<notin> fst ` set a) b"

definition nth_opt :: "'a list \<Rightarrow> nat \<Rightarrow> 'a option" where
  "nth_opt xs n = (if n < length xs then Some (xs ! n) else None)"

subsection \<open>String operations\<close>

text \<open>
  \<^verbatim>\<open>s.split(sep)\<close> for a separator that is not empty: the string is scanned from the
  left; at an occurrence of the separator the piece read so far is closed and the
  separator skipped (the counter holds the characters still to skip).
\<close>

fun split_scan :: "string \<Rightarrow> nat \<Rightarrow> string \<Rightarrow> string \<Rightarrow> string list" where
  "split_scan sep skip acc [] = [acc]"
| "split_scan sep (Suc n) acc (c # cs) = split_scan sep n acc cs"
| "split_scan sep 0 acc (c # cs) =
     (if take (length sep) (c # cs) = sep
      then acc # split_scan sep (length sep - 1) [] cs
      else split_scan sep 0 (acc @ [c]) cs)"

definition py_split :: "string \<Rightarrow> string \<Rightarrow> string list" where
  "py_split sep s = split_scan sep 0 [] s"

text \<open>\<^verbatim>\<open>s.replace(old, new)\<close>, for \<open>old\<close> not empty.\<close>

fun replace_scan :: "string \<Rightarrow> string \<Rightarrow> nat \<Rightarrow> string \<Rightarrow> string" where
  "replace_scan old new skip [] = []"
| "replace_scan old new (Suc n) (c # cs) = replace_scan old new n cs"
| "replace_scan old new 0 (c # cs) =
     (if take (length old) (c # cs) = old
      then new @ replace_scan old new (length old - 1) cs
      else c # replace_scan old new 0 cs)"

definition py_replace :: "string \<Rightarrow> string \<Rightarrow> string \<Rightarrow> string" where
  "py_replace old new s = replace_scan old new 0 s"

text \<open>\<^verbatim>\<open>sep.join(xs)\<close>.\<close>

fun py_join :: "string \<Rightarrow> string list \<Rightarrow> string" where
  "py_join sep [] = []"
| "py_join sep [x] = x"
| "py_join sep (x # y # ys) = x @ sep @ py_join sep (y # ys)"

definition extract_segments :: "string \<Rightarrow> nat \<Rightarrow> string" where
  "extract_segments path num_segments =
     py_join '']'' (take num_segments (py_split '']'' path)) @ '']''"

text \<open>
  One match of the pattern \<^verbatim>\<open>\['(.*?)'\]|\[(\d+)\]\<close> at the start of a string: the two groups
  (the one that did not take part is empty) and the length of the match. The lazy
  \<^verbatim>\<open>.*?\<close> stops at the first \<^verbatim>\<open>']\<close> and does not cross a line break.
\<close>

fun lazy_until_close :: "string \<Rightarrow> string \<Rightarrow> string option" where
  "lazy_until_close acc [] = None"
| "lazy_until_close acc (c # cs) =
     (if take 2 (c # cs) = [CHR 0x27, CHR '']'']
      then Some acc
      else if c = CHR 0x0A then None
      else lazy_until_close (acc @ [c]) cs)"

definition match_at :: "string \<Rightarrow> ((string \<times> string) \<times> nat) option" where
  "match_at s =
     (let second =
            (case s of
               [] \<Rightarrow> None
             | c # cs \<Rightarrow>
                 (let ds = takeWhile is_digit cs
                  in if c = CHR ''['' \<and> ds \<noteq> [] \<and> take 1 (dropWhile is_digit cs) = '']''
                     then Some (([], ds), length ds + 2)
                     else None))
      in if take 2 s = [CHR ''['', CHR 0x27]
         then (case lazy_until_close [] (drop 2 s) of
                 Some key \<Rightarrow> Some ((key, []), length key + 4)
               | None \<Rightarrow> second)
         else second)"

text \<open>\<^verbatim>\<open>re.findall\<close> with that pattern: the matches from left to right, without overlap.\<close>

fun findall_scan :: "nat \<Rightarrow> string \<Rightarrow> (string \<times> string) list" where
  "findall_scan skip [] = []"
| "findall_scan (Suc n) (c # cs) = findall_scan n cs"
| "findall_scan 0 (c # cs) =
     (case match_at (c # cs) of
        Some (groups, len) \<Rightarrow> groups # findall_scan (len - 1) cs
      | None \<Rightarrow> findall_scan 0 cs)"

definition findall_path :: "string \<Rightarrow> (string \<times> string) list" where
  "findall_path path = findall_scan 0 path"

subsection \<open>\<^verbatim>\<open>process_diff\<close>\<close>

text \<open>The two-character strings \<^verbatim>\<open>['\<close> and \<^verbatim>\<open>']\<close> that delimit a key in a DeepDiff path.\<close>

definition open_key :: string where
  "open_key = [CHR ''['', CHR 0x27]"

definition close_key :: string where
  "close_key = [CHR 0x27, CHR '']'']"

text \<open>
  \<^verbatim>\<open>get_value_at_path\<close>. \<open>Some YNull\<close> is the \<^verbatim>\<open>None\<close> the function returns (also from its
  handler for \<^verbatim>\<open>KeyError\<close>, \<^verbatim>\<open>IndexError\<close> and \<^verbatim>\<open>TypeError\<close>); \<open>None\<close> is an exception the
  handler does not catch: \<^verbatim>\<open>AttributeError\<close> from \<^verbatim>\<open>.get\<close> on a value that is not a
  dictionary, \<^verbatim>\<open>ValueError\<close> from \<^verbatim>\<open>int('')\<close>.
\<close>

fun get_value_at_keys :: "yaml \<Rightarrow> (string \<times> string) list \<Rightarrow> yaml option" where
  "get_value_at_keys data [] = Some data"
| "get_value_at_keys data ((k, i) # keys) =
     (if k \<noteq> [] then
        (case data of
           YDict d \<Rightarrow>
             (case map_of d k of
                None \<Rightarrow> Some YNull
              | Some v \<Rightarrow> if v = YNull then Some YNull else get_value_at_keys v keys)
         | _ \<Rightarrow> None)
      else if i = [] then None
      else
        (case data of
           YList xs \<Rightarrow>
             (case nth_opt xs (int_of_digits i) of
                None \<Rightarrow> Some YNull
              | Some v \<Rightarrow> if v = YNull then Some YNull else get_value_at_keys v keys)
         | YStr s \<Rightarrow>
             (case nth_opt s (int_of_digits i) of
                None \<Rightarrow> Some YNull
              | Some c \<Rightarrow> get_value_at_keys (YStr [c]) keys)
         | _ \<Rightarrow> Some YNull))"

definition get_value_at_path :: "yaml \<Rightarrow> string \<Rightarrow> yaml option" where
  "get_value_at_path data path = get_value_at_keys data (findall_path path)"

text \<open>
  The loop of \<^verbatim>\<open>find_nested_dict_entry\<close> over a list: an entry that is not a dictionary
  has no \<^verbatim>\<open>.get\<close>, and the function's handler returns \<^verbatim>\<open>None\<close>.
\<close>

fun find_entry :: "yaml list \<Rightarrow> string \<Rightarrow> yaml \<Rightarrow> yaml option" where
  "find_entry [] key v = None"
| "find_entry (entry # entries) key v =
     (case entry of
        YDict d \<Rightarrow> if py_eq (dict_get d key YNull) v then Some entry
                   else find_entry entries key v
      | _ \<Rightarrow> None)"

text \<open>
  \<^verbatim>\<open>find_nested_dict_entry\<close>: \<open>None\<close> is the \<^verbatim>\<open>None\<close> it returns. The value under
  \<open>object_key\<close> is iterated as it is: over a dictionary the loop sees the keys, over a
  string the characters, and both fail on \<^verbatim>\<open>.get\<close>; a value that cannot be iterated
  fails at once.
\<close>

definition find_nested_dict_entry :: "yaml \<Rightarrow> string \<Rightarrow> string \<Rightarrow> yaml \<Rightarrow> yaml option" where
  "find_nested_dict_entry nested_dict object_key key v =
     (case nested_dict of
        YDict d \<Rightarrow>
          (case py_iter (dict_get d object_key (YList [])) of
             None \<Rightarrow> None
           | Some object_list \<Rightarrow> find_entry object_list key v)
      | _ \<Rightarrow> None)"

text \<open>
  The result of \<^verbatim>\<open>process_diff\<close>: per object type, the three lists. The dictionary
  \<^verbatim>\<open>results\<close> keeps the order in which the object types were first met.
\<close>

record bucket =
  added :: "yaml list"
  changed :: "yaml list"
  removed :: "yaml list"

type_synonym results = "(string \<times> bucket) list"

definition ensure_bucket :: "string \<Rightarrow> results \<Rightarrow> results" where
  "ensure_bucket k results =
     (if k \<in> fst ` set results then results
      else results @ [(k, \<lparr>added = [], changed = [], removed = []\<rparr>)])"

definition update_bucket :: "string \<Rightarrow> (bucket \<Rightarrow> bucket) \<Rightarrow> results \<Rightarrow> results" where
  "update_bucket k f results = map (\<lambda>(j, b). if j = k then (j, f b) else (j, b)) results"

definition added_types :: "string list" where
  "added_types = [''dictionary_item_added'', ''iterable_item_added'', ''attribute_added'',
                  ''set_item_added'']"

definition changed_types :: "string list" where
  "changed_types = [''values_changed'', ''type_changes'', ''repetition_change'']"

definition removed_types :: "string list" where
  "removed_types = [''dictionary_item_removed'', ''iterable_item_removed'',
                    ''attribute_removed'', ''set_item_removed'']"

text \<open>
  What DeepDiff reports under one change type: a dictionary from path to details, or
  (for \<^verbatim>\<open>dictionary_item_added\<close> and \<^verbatim>\<open>dictionary_item_removed\<close>) a collection of paths.
\<close>

datatype changes = Changes_Dict "(string \<times> yaml) list" | Changes_Paths "string list"

type_synonym deepdiff = "(string \<times> changes) list"

text \<open>
  In the functions below \<open>None\<close> is an exception raised inside the \<^verbatim>\<open>try\<close> block of
  \<^verbatim>\<open>process_diff\<close>.

  First execution (\<^verbatim>\<open>type_changes\<close> at \<^verbatim>\<open>root\<close>): the loop over the items of the new
  value.
\<close>

fun first_exec_items :: "(string \<times> yaml) list \<Rightarrow> results \<Rightarrow> results option" where
  "first_exec_items [] results = Some results"
| "first_exec_items ((change_first_exec, details_first_exec) # items) results =
     (let results1 = ensure_bucket change_first_exec results
      in case details_first_exec of
           YList xs \<Rightarrow>
             first_exec_items items
               (update_bucket change_first_exec (\<lambda>b. b\<lparr>added := added b @ xs\<rparr>) results1)
         | YDict d \<Rightarrow>
             (case map_of d ''user_defined'' of
                None \<Rightarrow> first_exec_items items results1
              | Some u \<Rightarrow>
                  (case py_iter u of
                     None \<Rightarrow> None
                   | Some xs \<Rightarrow>
                       first_exec_items items
                         (update_bucket change_first_exec (\<lambda>b. b\<lparr>added := added b @ xs\<rparr>)
                            results1)))
         | _ \<Rightarrow> first_exec_items items results1)"

text \<open>
  One entry of a dictionary of changes. The state is \<^verbatim>\<open>results\<close> and
  \<^verbatim>\<open>list_objects_changed_names\<close>.
\<close>

definition process_change ::
  "yaml \<Rightarrow> yaml \<Rightarrow> string option \<Rightarrow> string \<Rightarrow> string \<times> yaml \<Rightarrow> results \<times> string list
     \<Rightarrow> (results \<times> string list) option" where
  "process_change previous_file current_file configlet_name change_type entry state =
     (let (change, details) = entry;
          (results, list_objects_changed_names) = state
      in if change_type = ''type_changes'' \<and> change = ''root'' then
           (case details of
              YDict dd \<Rightarrow>
                (case map_of dd ''new_value'' of
                   Some (YDict items) \<Rightarrow>
                     (case first_exec_items items results of
                        None \<Rightarrow> None
                      | Some r \<Rightarrow> Some (r, list_objects_changed_names))
                 | _ \<Rightarrow> None)
            | _ \<Rightarrow> None)
         else if change_type = ''values_changed'' \<and> change = ''root'' then
           (case configlet_name of
              None \<Rightarrow> Some state
            | Some n \<Rightarrow>
                if n = [] then Some state
                else
                  (case details of
                     YDict dd \<Rightarrow>
                       Some (update_bucket ''configlet_contents''
                               (\<lambda>b. b\<lparr>changed := changed b
                                        @ [YDict (dict_union [(''name'', YStr n)] dd)]\<rparr>)
                               (ensure_bucket ''configlet_contents'' results),
                             list_objects_changed_names)
                   | _ \<Rightarrow> None))
         else
           (case nth_opt (py_split open_key change) 1 of
              None \<Rightarrow> None
            | Some part \<Rightarrow>
                (let apstra_object = hd (py_split close_key part);
                     results1 = ensure_bucket apstra_object results
                 in if change_type \<in> set changed_types then
                      (case nth_opt (py_split ''root'' change) 1 of
                         None \<Rightarrow> None
                       | Some p \<Rightarrow>
                           (let previous_object = extract_segments p 2;
                                changed_attribute =
                                  hd (py_split '']'' (last (py_split ''['' change)))
                            in if changed_attribute = [CHR 0x27] @ ''name'' @ [CHR 0x27] then
                                 (case details of
                                    YDict dd \<Rightarrow>
                                      (let previous_name = dict_get dd ''old_value'' (YStr []);
                                           current_name = dict_get dd ''new_value'' (YStr []);
                                           previous_entry =
                                             find_nested_dict_entry previous_file apstra_object
                                               ''name'' previous_name;
                                           current_entry =
                                             find_nested_dict_entry current_file apstra_object
                                               ''name'' current_name
                                       in case (previous_entry, current_entry) of
                                            (Some pe, Some ce) \<Rightarrow>
                                              if py_truthy pe \<and> py_truthy ce
                                              then Some (update_bucket apstra_object
                                                           (\<lambda>b. b\<lparr>removed := removed b @ [pe],
                                                                  added := added b @ [ce]\<rparr>)
                                                           results1,
                                                         list_objects_changed_names
                                                           @ [previous_object])
                                              else Some (results1,
                                                         list_objects_changed_names
                                                           @ [previous_object])
                                          | _ \<Rightarrow> Some (results1,
                                                       list_objects_changed_names
                                                         @ [previous_object]))
                                  | _ \<Rightarrow> None)
                               else if previous_object \<notin> set list_objects_changed_names then
                                 (case get_value_at_path previous_file
                                         (previous_object @ open_key @ ''name'' @ close_key) of
                                    None \<Rightarrow> None
                                  | Some current_name \<Rightarrow>
                                      (case details of
                                         YDict dd \<Rightarrow>
                                           Some (update_bucket apstra_object
                                                   (\<lambda>b. b\<lparr>changed := changed b
                                                            @ [YDict (dict_union
                                                                 [(''name'', current_name)]
                                                                 dd)]\<rparr>)
                                                   results1,
                                                 list_objects_changed_names)
                                       | _ \<Rightarrow> None))
                               else Some (results1, list_objects_changed_names)))
                    else if change_type \<in> set added_types then
                      Some (update_bucket apstra_object
                              (\<lambda>b. b\<lparr>added := added b @ [details]\<rparr>) results1,
                            list_objects_changed_names)
                    else if change_type \<in> set removed_types then
                      Some (update_bucket apstra_object
                              (\<lambda>b. b\<lparr>removed := removed b @ [details]\<rparr>) results1,
                            list_objects_changed_names)
                    else Some (results1, list_objects_changed_names))))"

fun process_changes ::
  "yaml \<Rightarrow> yaml \<Rightarrow> string option \<Rightarrow> string \<Rightarrow> (string \<times> yaml) list
     \<Rightarrow> results \<times> string list \<Rightarrow> (results \<times> string list) option" where
  "process_changes previous_file current_file configlet_name change_type [] state = Some state"
| "process_changes previous_file current_file configlet_name change_type (entry # entries) state =
     (case process_change previous_file current_file configlet_name change_type entry state of
        None \<Rightarrow> None
      | Some state' \<Rightarrow>
          process_changes previous_file current_file configlet_name change_type entries state')"

text \<open>
  \<^verbatim>\<open>eval(path)\<close> on a path whose \<^verbatim>\<open>root\<close> was replaced by \<^verbatim>\<open>data_from_yaml\<close>: the variable
  followed by subscripts, each a quoted key or an index. A missing key, an index out of
  range, a subscript on a scalar and a string that is not of this shape all raise.
\<close>

fun subscripts :: "yaml \<Rightarrow> (string \<times> string) list \<Rightarrow> yaml option" where
  "subscripts data [] = Some data"
| "subscripts data ((k, i) # keys) =
     (if i = [] then
        (case data of
           YDict d \<Rightarrow> (case map_of d k of None \<Rightarrow> None | Some v \<Rightarrow> subscripts v keys)
         | _ \<Rightarrow> None)
      else
        (case data of
           YList xs \<Rightarrow>
             (case nth_opt xs (int_of_digits i) of
                None \<Rightarrow> None
              | Some v \<Rightarrow> subscripts v keys)
         | YStr s \<Rightarrow>
             (case nth_opt s (int_of_digits i) of
                None \<Rightarrow> None
              | Some c \<Rightarrow> subscripts (YStr [c]) keys)
         | _ \<Rightarrow> None))"

definition eval_path :: "yaml \<Rightarrow> string \<Rightarrow> yaml option" where
  "eval_path data_from_yaml path =
     (let var = ''data_from_yaml'';
          rest = drop (length var) path;
          keys = findall_path rest
      in if take (length var) path = var
            \<and> concat (map (\<lambda>(k, i). if i = [] then open_key @ k @ close_key
                                      else ''['' @ i @ '']'') keys) = rest
            \<and> list_all (\<lambda>(k, i). CHR 0x27 \<notin> set k \<and> CHR 0x5C \<notin> set k) keys
         then subscripts data_from_yaml keys
         else None)"

text \<open>
  The loop over a collection of paths, for \<^verbatim>\<open>dictionary_item_added\<close> (on the current
  file) and \<^verbatim>\<open>dictionary_item_removed\<close> (on the previous file).
\<close>

fun process_paths :: "bool \<Rightarrow> yaml \<Rightarrow> string list \<Rightarrow> results \<Rightarrow> results option" where
  "process_paths is_added data_from_yaml [] results = Some results"
| "process_paths is_added data_from_yaml (change # cs) results =
     (case nth_opt (py_split open_key change) 1 of
        None \<Rightarrow> None
      | Some part \<Rightarrow>
          (let apstra_object = hd (py_split close_key part);
               path = py_replace ''root'' ''data_from_yaml'' change
           in case eval_path data_from_yaml path of
                None \<Rightarrow> None
              | Some details \<Rightarrow>
                  (let results1 = ensure_bucket apstra_object results
                   in case details of
                        YList xs \<Rightarrow>
                          process_paths is_added data_from_yaml cs
                            (update_bucket apstra_object
                               (\<lambda>b. if is_added then b\<lparr>added := added b @ xs\<rparr>
                                     else b\<lparr>removed := removed b @ xs\<rparr>)
                               results1)
                      | _ \<Rightarrow> process_paths is_added data_from_yaml cs results1)))"

text \<open>
  The loop over the change types of the diff. A file that does not exist is \<open>None\<close>:
  \<^verbatim>\<open>read_yaml\<close> and \<^verbatim>\<open>read_j2\<close> then return \<^verbatim>\<open>None\<close>, while opening it for the collection
  of paths raises.
\<close>

fun process_diff_types ::
  "yaml option \<Rightarrow> yaml option \<Rightarrow> string option \<Rightarrow> deepdiff \<Rightarrow> results \<Rightarrow> results option" where
  "process_diff_types previous_file current_file configlet_name [] results = Some results"
| "process_diff_types previous_file current_file configlet_name ((change_type, chs) # rest)
       results =
     (if change_type \<in> set (added_types @ changed_types @ removed_types) then
        (case chs of
           Changes_Dict entries \<Rightarrow>
             (case process_changes
                     (case previous_file of None \<Rightarrow> YNull | Some y \<Rightarrow> y)
                     (case current_file of None \<Rightarrow> YNull | Some y \<Rightarrow> y)
                     configlet_name change_type entries (results, []) of
                None \<Rightarrow> None
              | Some (results', names) \<Rightarrow>
                  process_diff_types previous_file current_file configlet_name rest results')
         | Changes_Paths paths \<Rightarrow>
             if change_type = ''dictionary_item_added''
                \<or> change_type = ''dictionary_item_removed''
             then
               (case (if change_type = ''dictionary_item_added'' then current_file
                      else previous_file) of
                  None \<Rightarrow> None
                | Some data_from_yaml \<Rightarrow>
                    (case process_paths (change_type = ''dictionary_item_added'')
                            data_from_yaml paths results of
                       None \<Rightarrow> None
                     | Some results' \<Rightarrow>
                         process_diff_types previous_file current_file configlet_name rest
                           results'))
             else process_diff_types previous_file current_file configlet_name rest results)
      else process_diff_types previous_file current_file configlet_name rest results)"

text \<open>
  \<^verbatim>\<open>process_diff\<close>: the handler of the \<^verbatim>\<open>try\<close> block logs the exception and returns the
  empty dictionary.
\<close>

definition process_diff ::
  "deepdiff \<Rightarrow> yaml option \<Rightarrow> yaml option \<Rightarrow> string option \<Rightarrow> results" where
  "process_diff diff previous_file current_file configlet_name =
     (case process_diff_types previous_file current_file configlet_name diff [] of
        None \<Rightarrow> []
      | Some results \<Rightarrow> results)"



section \<open>Rollback: cleanup of the added objects\<close>

text \<open>
  The calls of the typed delete functions that \<^verbatim>\<open>remove_non_bp_added\<close> makes, each with
  the name of the object (its id is looked up from the name just before the call).
\<close>

datatype delete_call =
    Delete_Interface_Map yaml
  | Delete_Template yaml
  | Delete_Rack_Type yaml
  | Delete_Logical_Device yaml
  | Delete_Configlet yaml
  | Delete_Property_Set yaml
  | Delete_Ip_Pool yaml
  | Delete_Vni_Pool yaml
  | Delete_Asn_Pool yaml

text \<open>
  The argument of \<^verbatim>\<open>remove_non_bp_added\<close>: per menu, the result of \<^verbatim>\<open>process_diff\<close>.
\<close>

type_synonym input_diff = "(string \<times> results) list"

text \<open>
  \<^verbatim>\<open>added.get('name', None)\<close>; \<open>None\<close> is the \<^verbatim>\<open>AttributeError\<close> for an entry that is not a
  dictionary.
\<close>

definition entry_name :: "yaml \<Rightarrow> yaml option" where
  "entry_name entry = (case entry of YDict d \<Rightarrow> Some (dict_get d ''name'' YNull) | _ \<Rightarrow> None)"

text \<open>
  The first loop collects the names of the added interface maps. \<open>None\<close> is an exception,
  which ends \<^verbatim>\<open>remove_non_bp_added\<close> in its handler.
\<close>

fun collect_added :: "string \<Rightarrow> string \<Rightarrow> yaml list \<Rightarrow> yaml list \<Rightarrow> yaml list option" where
  "collect_added menu apstra_object [] interface_maps_to_remove = Some interface_maps_to_remove"
| "collect_added menu apstra_object (entry # entries) interface_maps_to_remove =
     (case entry_name entry of
        None \<Rightarrow> None
      | Some added_name \<Rightarrow>
          collect_added menu apstra_object entries
            (if py_truthy added_name \<and> menu = ''design'' \<and> apstra_object = ''interface_maps''
             then interface_maps_to_remove @ [added_name]
             else interface_maps_to_remove))"

fun collect_objects :: "string \<Rightarrow> results \<Rightarrow> yaml list \<Rightarrow> yaml list option" where
  "collect_objects menu [] interface_maps_to_remove = Some interface_maps_to_remove"
| "collect_objects menu ((apstra_object, change_types) # objs) interface_maps_to_remove =
     (case collect_added menu apstra_object (added change_types) interface_maps_to_remove of
        None \<Rightarrow> None
      | Some names \<Rightarrow> collect_objects menu objs names)"

fun collect_menus :: "input_diff \<Rightarrow> yaml list \<Rightarrow> yaml list option" where
  "collect_menus [] interface_maps_to_remove = Some interface_maps_to_remove"
| "collect_menus ((menu, apstra_objects) # menus) interface_maps_to_remove =
     (case collect_objects menu apstra_objects interface_maps_to_remove of
        None \<Rightarrow> None
      | Some names \<Rightarrow> collect_menus menus names)"

text \<open>
  A delete function catches the request errors itself. Whether a given call lets another
  exception escape is the environment's doing (\<open>escapes\<close>); \<^verbatim>\<open>delete_configlet\<close> and
  \<^verbatim>\<open>delete_property_set\<close> catch every exception. An escaped exception ends
  \<^verbatim>\<open>remove_non_bp_added\<close>. The flag returned with the calls tells whether the loop ran to
  its end.
\<close>

fun catches_all :: "delete_call \<Rightarrow> bool" where
  "catches_all (Delete_Configlet n) = True"
| "catches_all (Delete_Property_Set n) = True"
| "catches_all _ = False"

fun delete_interface_maps ::
  "(delete_call \<Rightarrow> bool) \<Rightarrow> yaml list \<Rightarrow> delete_call list \<times> bool" where
  "delete_interface_maps escapes [] = ([], True)"
| "delete_interface_maps escapes (interface_map_name # names) =
     (if escapes (Delete_Interface_Map interface_map_name)
      then ([Delete_Interface_Map interface_map_name], False)
      else (let (calls, completed) = delete_interface_maps escapes names
            in (Delete_Interface_Map interface_map_name # calls, completed)))"

text \<open>
  The delete function the second loop calls for an added object. \<^verbatim>\<open>delete_ipv6_pool\<close> is
  called but defined nowhere in the repository: the call raises \<^verbatim>\<open>NameError\<close>.
\<close>

datatype cleanup = Call delete_call | Undefined_Function | No_Call

definition cleanup_of :: "string \<Rightarrow> string \<Rightarrow> yaml \<Rightarrow> cleanup" where
  "cleanup_of menu apstra_object added_name =
     (if menu = ''design'' then
        (if apstra_object = ''templates'' then Call (Delete_Template added_name)
         else if apstra_object = ''racks'' then Call (Delete_Rack_Type added_name)
         else if apstra_object = ''logical_devices'' then Call (Delete_Logical_Device added_name)
         else if apstra_object = ''configlets'' then Call (Delete_Configlet added_name)
         else if apstra_object = ''property_sets'' then Call (Delete_Property_Set added_name)
         else No_Call)
      else if menu = ''resources'' then
        (if apstra_object = ''ipv4_pools'' then Call (Delete_Ip_Pool added_name)
         else if apstra_object = ''ipv6_pools'' then Undefined_Function
         else if apstra_object = ''vni_pools'' then Call (Delete_Vni_Pool added_name)
         else if apstra_object = ''asn_pools'' then Call (Delete_Asn_Pool added_name)
         else No_Call)
      else No_Call)"

fun remove_added ::
  "(delete_call \<Rightarrow> bool) \<Rightarrow> string \<Rightarrow> string \<Rightarrow> yaml list \<Rightarrow> delete_call list \<times> bool" where
  "remove_added escapes menu apstra_object [] = ([], True)"
| "remove_added escapes menu apstra_object (entry # entries) =
     (case entry_name entry of
        None \<Rightarrow> ([], False)
      | Some added_name \<Rightarrow>
          if py_truthy added_name then
            (case cleanup_of menu apstra_object added_name of
               Call c \<Rightarrow>
                 if \<not> catches_all c \<and> escapes c then ([c], False)
                 else (let (calls, completed) = remove_added escapes menu apstra_object entries
                       in (c # calls, completed))
             | Undefined_Function \<Rightarrow> ([], False)
             | No_Call \<Rightarrow> remove_added escapes menu apstra_object entries)
          else remove_added escapes menu apstra_object entries)"

text \<open>\<^verbatim>\<open>sub in s\<close> on strings.\<close>

fun contains :: "string \<Rightarrow> string \<Rightarrow> bool" where
  "contains sub [] = (sub = [])"
| "contains sub (c # cs) = (take (length sub) (c # cs) = sub \<or> contains sub cs)"

text \<open>
  \<^verbatim>\<open>[d["name"] for d in changed_list if "name" in d]\<close>; \<open>None\<close> is the \<^verbatim>\<open>TypeError\<close> raised
  by an entry that is not a dictionary (at the membership test, or at the subscript when
  the test succeeds on a string or a list).
\<close>

fun changed_names :: "yaml list \<Rightarrow> yaml list option" where
  "changed_names [] = Some []"
| "changed_names (d # ds) =
     (case d of
        YDict dd \<Rightarrow>
          (case changed_names ds of
             None \<Rightarrow> None
           | Some names \<Rightarrow>
               (case map_of dd ''name'' of None \<Rightarrow> Some names | Some n \<Rightarrow> Some (n # names)))
      | YStr s \<Rightarrow> if contains ''name'' s then None else changed_names ds
      | YList xs \<Rightarrow> if list_ex (\<lambda>x. py_eq x (YStr ''name'')) xs then None else changed_names ds
      | _ \<Rightarrow> None)"

fun remove_objects ::
  "(delete_call \<Rightarrow> bool) \<Rightarrow> string \<Rightarrow> results \<Rightarrow> delete_call list \<times> bool" where
  "remove_objects escapes menu [] = ([], True)"
| "remove_objects escapes menu ((apstra_object, change_types) # objs) =
     (let (calls, completed) =
            (if added change_types \<noteq> []
             then remove_added escapes menu apstra_object (added change_types)
             else if changed change_types \<noteq> [] \<and> apstra_object = ''configlet_contents''
             then (case changed_names (changed change_types) of
                     None \<Rightarrow> ([], False)
                   | Some names \<Rightarrow> (map Delete_Configlet names, True))
             else ([], True))
      in if \<not> completed then (calls, False)
         else (let (calls', completed') = remove_objects escapes menu objs
               in (calls @ calls', completed')))"

fun remove_menus :: "(delete_call \<Rightarrow> bool) \<Rightarrow> input_diff \<Rightarrow> delete_call list \<times> bool" where
  "remove_menus escapes [] = ([], True)"
| "remove_menus escapes ((menu, apstra_objects) # menus) =
     (let (calls, completed) = remove_objects escapes menu apstra_objects
      in if \<not> completed then (calls, False)
         else (let (calls', completed') = remove_menus escapes menus
               in (calls @ calls', completed')))"

text \<open>
  \<^verbatim>\<open>remove_non_bp_added\<close>: the calls of the delete functions, in the order they are made.
\<close>

definition remove_non_bp_added :: "(delete_call \<Rightarrow> bool) \<Rightarrow> input_diff \<Rightarrow> delete_call list" where
  "remove_non_bp_added escapes input_diff =
     (case collect_menus input_diff [] of
        None \<Rightarrow> []
      | Some interface_maps_to_remove \<Rightarrow>
          (let (calls, completed) = delete_interface_maps escapes interface_maps_to_remove
           in if \<not> completed then calls
              else calls @ fst (remove_menus escapes input_diff)))"

section \<open>Leaving an execution: \<^verbatim>\<open>exit_manager\<close>\<close>

subsection \<open>Directory trees\<close>

text \<open>
  A file with its content, or a directory with its entries. Paths are lists of names,
  relative to the executions directory of the project.
\<close>

datatype 'a node = File 'a | Dir "(string \<times> 'a node) list"

fun node_lookup :: "string list \<Rightarrow> 'a node \<Rightarrow> 'a node option" where
  "node_lookup [] nd = Some nd"
| "node_lookup (n # p) (Dir es) =
     (case map_of es n of None \<Rightarrow> None | Some c \<Rightarrow> node_lookup p c)"
| "node_lookup (n # p) (File a) = None"

text \<open>
  \<^verbatim>\<open>os.makedirs(path, exist_ok=True)\<close>: \<open>None\<close> is the exception raised when a file is in
  the way.
\<close>

fun node_mkdirs :: "string list \<Rightarrow> 'a node \<Rightarrow> 'a node option" where
  "node_mkdirs [] (Dir es) = Some (Dir es)"
| "node_mkdirs [] (File a) = None"
| "node_mkdirs (n # p) (Dir es) =
     (case map_of es n of
        None \<Rightarrow>
          (case node_mkdirs p (Dir []) of
             None \<Rightarrow> None
           | Some x \<Rightarrow> Some (Dir (es @ [(n, x)])))
      | Some c \<Rightarrow>
          (case node_mkdirs p c of
             None \<Rightarrow> None
           | Some x \<Rightarrow> Some (Dir (map (\<lambda>(k, y). if k = n then (k, x) else (k, y)) es))))"
| "node_mkdirs (n # p) (File a) = None"

text \<open>
  Writing a node at a path whose parent directory exists; \<open>None\<close> when it does not.
\<close>

fun node_put :: "string list \<Rightarrow> 'a node \<Rightarrow> 'a node \<Rightarrow> 'a node option" where
  "node_put [] new old = Some new"
| "node_put (n # p) new (Dir es) =
     (case map_of es n of
        None \<Rightarrow> if p = [] then Some (Dir (es @ [(n, new)])) else None
      | Some c \<Rightarrow>
          (case node_put p new c of
             None \<Rightarrow> None
           | Some x \<Rightarrow> Some (Dir (map (\<lambda>(k, y). if k = n then (k, x) else (k, y)) es))))"
| "node_put (n # p) new (File a) = None"

text \<open>Removing what is at a path, if anything.\<close>

fun node_remove :: "string list \<Rightarrow> 'a node \<Rightarrow> 'a node" where
  "node_remove [] nd = nd"
| "node_remove [n] (Dir es) = Dir (filter (\<lambda>(k, y). k \<noteq> n) es)"
| "node_remove (n # m # p) (Dir es) =
     Dir (map (\<lambda>(k, y). if k = n then (k, node_remove (m # p) y) else (k, y)) es)"
| "node_remove (n # p) (File a) = File a"

text \<open>
  Two paths that part at some name: neither leads to a place at or below the other.
\<close>

fun diverge :: "string list \<Rightarrow> string list \<Rightarrow> bool" where
  "diverge (a # p) (b # q) \<longleftrightarrow> a \<noteq> b \<or> diverge p q"
| "diverge p q \<longleftrightarrow> False"

text \<open>
  \<^verbatim>\<open>copy_file\<close> of a file that exists: the directory of the destination is created when
  missing, a destination that is a directory receives the file under its own name, and
  any failure is caught and leaves the tree as it is.
\<close>

definition copy_file :: "'a \<Rightarrow> string \<Rightarrow> string list \<Rightarrow> 'a node \<Rightarrow> 'a node" where
  "copy_file content basename destination root =
     (case node_mkdirs (butlast destination) root of
        None \<Rightarrow> root
      | Some root1 \<Rightarrow>
          (let target = (case node_lookup destination root1 of
                           Some (Dir es) \<Rightarrow> destination @ [basename]
                         | _ \<Rightarrow> destination)
           in case node_lookup target root1 of
                Some (Dir es) \<Rightarrow> root
              | _ \<Rightarrow> (case node_put target (File content) root1 of
                        None \<Rightarrow> root
                      | Some root2 \<Rightarrow> root2)))"

text \<open>
  \<^verbatim>\<open>remove_directory\<close> on a path of the tree: \<^verbatim>\<open>shutil.rmtree\<close>, with its errors ignored,
  removes a directory and leaves a regular file where it is.
\<close>

definition remove_directory_node :: "string list \<Rightarrow> 'a node \<Rightarrow> 'a node" where
  "remove_directory_node path root =
     (case node_lookup path root of
        Some (Dir es) \<Rightarrow> node_remove path root
      | _ \<Rightarrow> root)"

subsection \<open>The scope manager's state\<close>

text \<open>
  What \<^verbatim>\<open>exit_manager\<close> reads and writes: the executions directory of the project (\<open>None\<close>
  when it does not exist; the wip directory is its entry \<^verbatim>\<open>__wip__\<close>, the sentinel of
  blocked executions its entry \<^verbatim>\<open>__blocked__\<close>), the temporary log file of the session,
  the project log, the archives, the folder of the reverted input snapshot, and four
  attributes of the scope manager.
\<close>

record 'a scope =
  executions :: "'a node option"
  tmp_exec_log_file :: "'a option"
  project_log :: "'a list"
  archive :: "'a node list"
  input_tgz_reverted_path :: bool
  sm_exit_code :: string
  sm_post_rollback :: bool
  sm_first_execution_reverted :: bool
  sm_interactive :: bool

definition wip_path :: "string list" where
  "wip_path = [''__wip__'']"

definition blocked_executions_path :: "string list" where
  "blocked_executions_path = [''__blocked__'']"

definition wip_execution_data_file :: "string list" where
  "wip_execution_data_file = [''__wip__'', ''execution_0'', ''execution_data.yml'']"

definition wip_execution_0_input_tgz_rollback_file :: "string list" where
  "wip_execution_0_input_tgz_rollback_file =
     [''__wip__'', ''execution_0'', ''yaml'', ''input.tgz.rollback'']"

definition execution_0_log_file :: "string list" where
  "execution_0_log_file = [''execution_0'', ''log'', ''00_full_execution.log'']"

text \<open>The keys of \<^verbatim>\<open>exit_messages\<close>.\<close>

definition exit_messages :: "string list" where
  "exit_messages =
     [''USER_SILENT_EXIT'', ''USER_REVERT'', ''TF_PLAN_W_ERRORS'', ''TF_PLAN_NO_CHANGES'',
      ''TF_PLAN_NO_CHANGES_POST_ROLLBACK'', ''USER_TF_EXEC_ABORTED'',
      ''TF_EXEC_NOT_APPLY_DESTROY'', ''TF_EXEC_W_ERRORS_REVERT'', ''TF_EXEC_W_ERRORS_DESTROY'',
      ''USER_TF_EXEC_COMMIT'', ''USER_TF_EXEC_DESTROY'', ''BLOCKED_EXECUTIONS'']"

text \<open>The set \<^verbatim>\<open>successful_execution\<close> is tested against.\<close>

definition successful_execution_codes :: "string list" where
  "successful_execution_codes =
     [''USER_TF_EXEC_COMMIT'', ''USER_TF_EXEC_DESTROY'', ''TF_PLAN_NO_CHANGES_POST_ROLLBACK'']"

text \<open>\<^verbatim>\<open>str.upper()\<close> on ASCII letters.\<close>

definition upper :: "string \<Rightarrow> string" where
  "upper s = map (\<lambda>c. if CHR ''a'' \<le> c \<and> c \<le> CHR ''z''
                        then char_of (of_char c - (32::nat)) else c) s"

subsection \<open>\<^verbatim>\<open>commit_wip_executions\<close>\<close>

definition startswith :: "string \<Rightarrow> string \<Rightarrow> bool" where
  "startswith s p \<longleftrightarrow> take (length p) s = p"

text \<open>
  \<^verbatim>\<open>shutil.move\<close> of a regular file of the wip directory to \<^verbatim>\<open>execution_0/log/<name>\<close>, on
  the wip directory. A destination that is a directory receives the file under its own
  name, unless something there has that name already, which raises. Otherwise the file
  is renamed to the destination, replacing a file that is there; this raises when the log
  directory is missing. \<open>None\<close> is the exception.
\<close>

definition shutil_move :: "string \<Rightarrow> 'a \<Rightarrow> 'a node \<Rightarrow> 'a node option" where
  "shutil_move file_name a wip =
     (let destination = [''execution_0'', ''log'', file_name]
      in case node_lookup destination wip of
           Some (Dir d) \<Rightarrow>
             (case map_of d file_name of
                Some x \<Rightarrow> None
              | None \<Rightarrow>
                  node_put (destination @ [file_name]) (File a) (node_remove [file_name] wip))
         | _ \<Rightarrow> node_put destination (File a) (node_remove [file_name] wip))"

text \<open>
  Step 1, over the names \<^verbatim>\<open>os.listdir\<close> returned: the regular files of the wip directory
  whose names start with \<^verbatim>\<open>execution_\<close> are moved to the log directory of \<^verbatim>\<open>execution_0\<close>.
  The result is the wip directory and whether the loop came to its end; an exception
  leaves the files moved so far where they are.
\<close>

fun move_logs :: "string list \<Rightarrow> 'a node \<Rightarrow> 'a node \<times> bool" where
  "move_logs [] wip = (wip, True)"
| "move_logs (file_name # names) wip =
     (case node_lookup [file_name] wip of
        Some (File a) \<Rightarrow>
          if startswith file_name ''execution_''
          then (case shutil_move file_name a wip of
                  None \<Rightarrow> (wip, False)
                | Some wip' \<Rightarrow> move_logs names wip')
          else move_logs names wip
      | _ \<Rightarrow> move_logs names wip)"

text \<open>
  The function as a whole, on the executions directory. Step 1 runs when
  \<^verbatim>\<open>execution_0/log\<close> is a directory of the wip directory. Then the wip directory is moved
  aside (without it the move raises and nothing is changed), the executions directory is
  emptied, the wip directory is moved back, and its entries are copied beside it one by
  one. An entry of the wip directory that is itself named \<^verbatim>\<open>__wip__\<close> cannot be copied onto
  the wip directory: the exception ends the loop. So does listing a wip path that is a
  regular file. Every exception is caught and logged by the function.
\<close>

definition commit_wip_executions :: "'a node \<Rightarrow> 'a node" where
  "commit_wip_executions root =
     (case node_lookup wip_path root of
        None \<Rightarrow> root
      | Some wip \<Rightarrow>
          (let (wip1, moved) =
                 (case wip of
                    Dir listing \<Rightarrow>
                      (case node_lookup [''execution_0'', ''log''] wip of
                         Some (Dir es) \<Rightarrow> move_logs (map fst listing) wip
                       | _ \<Rightarrow> (wip, True))
                  | File a \<Rightarrow> (wip, True))
           in if \<not> moved
              then (case node_put wip_path wip1 root of None \<Rightarrow> root | Some root' \<Rightarrow> root')
              else
                (case wip1 of
                   Dir items \<Rightarrow>
                     Dir ((''__wip__'', wip1)
                          # takeWhile (\<lambda>(item, x). item \<noteq> ''__wip__'') items)
                 | File a \<Rightarrow> Dir [(''__wip__'', wip1)])))"

subsection \<open>\<^verbatim>\<open>exit_manager\<close>\<close>

text \<open>
  How a call of \<^verbatim>\<open>exit_manager\<close> ends: with \<^verbatim>\<open>sys.exit\<close>, by starting the follow-up
  execution (\<^verbatim>\<open>run_apaf_terraform\<close>) that completes a rollback, or by returning to its
  caller (no exit code given, or an exception caught by its handler).
\<close>

datatype 'a ending = Exit int "'a scope" | Launch "'a scope" | Return "'a scope"

fun scope_of :: "'a ending \<Rightarrow> 'a scope" where
  "scope_of (Exit c st) = st"
| "scope_of (Launch st) = st"
| "scope_of (Return st) = st"

text \<open>
  The update of \<^verbatim>\<open>exit_code\<close> in the execution data file, when that file exists;
  \<open>set_exit_code\<close> is the rewriting of the YAML content.
\<close>

definition record_exit_code :: "(string \<Rightarrow> 'a \<Rightarrow> 'a) \<Rightarrow> string \<Rightarrow> 'a node \<Rightarrow> 'a node" where
  "record_exit_code set_exit_code code root =
     (case node_lookup wip_execution_data_file root of
        Some (File a) \<Rightarrow>
          (case node_put wip_execution_data_file (File (set_exit_code code a)) root of
             None \<Rightarrow> root
           | Some root' \<Rightarrow> root')
      | _ \<Rightarrow> root)"

definition remove_file :: "string list \<Rightarrow> 'a node \<Rightarrow> 'a node" where
  "remove_file path root =
     (case node_lookup path root of
        Some (File a) \<Rightarrow> node_remove path root
      | _ \<Rightarrow> root)"

text \<open>
  \<^verbatim>\<open>BLOCKED_EXECUTIONS\<close>: the sentinel directory is created (with the executions directory
  if need be) and receives a copy of the temporary log. \<open>None\<close> is the exception of
  \<^verbatim>\<open>os.makedirs\<close>, raised in the \<^verbatim>\<open>try\<close> block of \<^verbatim>\<open>exit_manager\<close> itself.
\<close>

definition block_executions :: "'a scope \<Rightarrow> 'a scope option" where
  "block_executions st =
     (case node_mkdirs blocked_executions_path
             (case executions st of None \<Rightarrow> Dir [] | Some root \<Rightarrow> root) of
        None \<Rightarrow> None
      | Some root1 \<Rightarrow>
          Some (st\<lparr>executions :=
                     Some (case tmp_exec_log_file st of
                             None \<Rightarrow> root1
                           | Some l \<Rightarrow> copy_file l ''full_execution.log''
                                        blocked_executions_path root1)\<rparr>))"

text \<open>
  The successful codes: the wip directory is committed and the temporary log copied to
  the log of \<^verbatim>\<open>execution_0\<close>.
\<close>

definition save_execution :: "'a scope \<Rightarrow> 'a scope" where
  "save_execution st =
     (let committed = map_option commit_wip_executions (executions st)
      in st\<lparr>executions :=
               (case tmp_exec_log_file st of
                  None \<Rightarrow> committed
                | Some l \<Rightarrow>
                    (case committed of
                       None \<Rightarrow> Some (copy_file l ''full_execution.log''
                                      execution_0_log_file (Dir []))
                     | Some root \<Rightarrow>
                         Some (copy_file l ''full_execution.log'' execution_0_log_file root)))\<rparr>)"

text \<open>
  \<^verbatim>\<open>manage_execution_dirs('destroy_final_stage')\<close>: the executions directory is archived
  and removed.
\<close>

definition destroy_final_stage :: "'a scope \<Rightarrow> 'a scope" where
  "destroy_final_stage st =
     (case executions st of
        None \<Rightarrow> st
      | Some root \<Rightarrow>
          st\<lparr>archive := archive st @ [root],
             executions := (case root of Dir es \<Rightarrow> None | File a \<Rightarrow> Some root)\<rparr>)"

text \<open>
  \<^verbatim>\<open>handle_project_log\<close> followed by the removal of the temporary log directory.
\<close>

definition handle_project_log :: "'a scope \<Rightarrow> 'a scope" where
  "handle_project_log st =
     st\<lparr>project_log := (case tmp_exec_log_file st of
                          None \<Rightarrow> project_log st
                        | Some l \<Rightarrow> project_log st @ [l]),
        tmp_exec_log_file := None\<rparr>"

text \<open>
  The condition under which \<^verbatim>\<open>exit_manager\<close> launches a follow-up execution instead of
  exiting: a rollback exit code, unless the first execution of the project was reverted.
\<close>

definition launches_follow_up :: "string \<Rightarrow> 'a scope \<Rightarrow> bool" where
  "launches_follow_up code st \<longleftrightarrow>
     \<not> sm_first_execution_reverted st
     \<and> (code = ''USER_REVERT'' \<or> code = ''TF_EXEC_W_ERRORS_REVERT'')"

text \<open>
  The steps of \<^verbatim>\<open>exit_manager\<close> for a recognised exit code, after the handling of
  \<^verbatim>\<open>BLOCKED_EXECUTIONS\<close>: the execution is saved for the successful codes, the wip
  directory is removed, a destroy is archived, and the function ends with the follow-up
  execution of a rollback or with \<^verbatim>\<open>sys.exit(0)\<close>.
\<close>

definition finish_exit :: "string \<Rightarrow> 'a scope \<Rightarrow> 'a ending" where
  "finish_exit code st3 =
     (let st4 = (if code \<in> set successful_execution_codes then save_execution st3 else st3);
          st5 = st4\<lparr>executions := map_option (remove_directory_node wip_path) (executions st4)\<rparr>;
          st6 = (if code = ''USER_TF_EXEC_DESTROY'' then destroy_final_stage st5 else st5)
      in if launches_follow_up code st6
         then Launch (handle_project_log st6)
         else
           (let st7 = handle_project_log (st6\<lparr>sm_post_rollback := False, sm_interactive := True\<rparr>);
                st8 = st7\<lparr>input_tgz_reverted_path := False\<rparr>
            in Exit 0 (if executions st8 = Some (Dir []) then st8\<lparr>executions := None\<rparr>
                       else st8)))"

text \<open>
  \<^verbatim>\<open>exit_manager\<close> up to the point where the follow-up execution is started. Nothing is
  done for an exit code that is \<^verbatim>\<open>None\<close> or empty. An exit code that is not a key of
  \<^verbatim>\<open>exit_messages\<close> is logged and the process exits.
\<close>

definition exit_manager_steps ::
  "(string \<Rightarrow> 'a \<Rightarrow> 'a) \<Rightarrow> 'a scope \<Rightarrow> string option \<Rightarrow> 'a ending" where
  "exit_manager_steps set_exit_code st exit_code_arg =
     (case exit_code_arg of
        None \<Rightarrow> Return st
      | Some given \<Rightarrow>
          if given = [] then Return st
          else
            (let code = upper given;
                 st1 = st\<lparr>sm_exit_code := code,
                          executions := map_option (record_exit_code set_exit_code code)
                                          (executions st)\<rparr>
             in if code \<in> set exit_messages then
                  (let st2 = st1\<lparr>executions :=
                                    map_option
                                      (remove_file wip_execution_0_input_tgz_rollback_file)
                                      (executions st1)\<rparr>
                   in case (if code = ''BLOCKED_EXECUTIONS'' then block_executions st2
                            else Some st2) of
                        None \<Rightarrow> Return st2
                      | Some st3 \<Rightarrow> finish_exit code st3)
                else Exit 0 st1))"

text \<open>
  How the follow-up execution ends, seen from \<^verbatim>\<open>exit_manager\<close>: it exits the process
  (it is a run of the same program), it returns, or it raises an exception.
\<close>

datatype 'a follow_up = Run_Exits int "'a scope" | Run_Returns "'a scope" | Run_Raises "'a scope"

text \<open>
  What the end of the follow-up execution makes of \<^verbatim>\<open>exit_manager\<close>: \<^verbatim>\<open>SystemExit\<close> passes
  through the handler, which catches \<^verbatim>\<open>Exception\<close> only; after a return the process exits
  with 0; an exception is caught by the handler, which logs it and returns.
\<close>

fun follow_up_ending :: "'a follow_up \<Rightarrow> 'a ending" where
  "follow_up_ending (Run_Exits c s) = Exit c s"
| "follow_up_ending (Run_Returns s) = Exit 0 s"
| "follow_up_ending (Run_Raises s) = Return s"

definition exit_manager ::
  "(string \<Rightarrow> 'a \<Rightarrow> 'a) \<Rightarrow> ('a scope \<Rightarrow> 'a follow_up) \<Rightarrow> 'a scope \<Rightarrow> string option
     \<Rightarrow> 'a ending" where
  "exit_manager set_exit_code run_apaf_terraform st exit_code_arg =
     (case exit_manager_steps set_exit_code st exit_code_arg of
        Launch st' \<Rightarrow> follow_up_ending (run_apaf_terraform st')
      | ending \<Rightarrow> ending)"

text \<open>The status the process exits with, if it exits.\<close>

fun exit_status :: "'a ending \<Rightarrow> int option" where
  "exit_status (Exit c st) = Some c"
| "exit_status (Launch st) = None"
| "exit_status (Return st) = None"

text \<open>
  Whether \<^verbatim>\<open>os.makedirs(path, exist_ok=True)\<close> raises in the executions directory of a
  scope: a regular file is in the way.
\<close>

definition makedirs_raises :: "string list \<Rightarrow> 'a scope \<Rightarrow> bool" where
  "makedirs_raises path st \<longleftrightarrow>
     node_mkdirs path (case executions st of None \<Rightarrow> Dir [] | Some root \<Rightarrow> root) = None"

text \<open>The entries of a directory other than the one named \<open>w\<close>.\<close>

definition entries_except :: "string \<Rightarrow> 'a node \<Rightarrow> (string \<times> 'a node) list" where
  "entries_except w nd =
     (case nd of Dir es \<Rightarrow> filter (\<lambda>(n, x). n \<noteq> w) es | File a \<Rightarrow> [])"

text \<open>
  The entries of the executions directory other than the wip directory: what is
  persisted from one execution to the next.
\<close>

definition persisted_entries :: "'a scope \<Rightarrow> (string \<times> 'a node) list" where
  "persisted_entries st =
     (case executions st of
        Some root \<Rightarrow> entries_except ''__wip__'' root
      | None \<Rightarrow> [])"

text \<open>
  A scope at the end of a run, with the content of an execution data file reduced to its
  exit code: one persisted execution, and in the wip directory the execution in progress,
  the copy of the persisted one, and a log file of the run.
\<close>

definition sample_scope :: "string scope" where
  "sample_scope =
     \<lparr>executions =
        Some (Dir [(''execution_0'',
                    Dir [(''execution_data.yml'', File ''USER_TF_EXEC_COMMIT'')]),
                   (''__wip__'',
                    Dir [(''execution_0'',
                          Dir [(''execution_data.yml'', File ''None''), (''log'', Dir [])]),
                         (''execution_1'',
                          Dir [(''execution_data.yml'', File ''USER_TF_EXEC_COMMIT'')]),
                         (''execution_stdout.log'', File ''stdout'')])]),
      tmp_exec_log_file = Some ''log'', project_log = [], archive = [],
      input_tgz_reverted_path = False, sm_exit_code = ''None'',
      sm_post_rollback = False, sm_first_execution_reverted = False,
      sm_interactive = False\<rparr>"

section \<open>Properties\<close>

subsection \<open>Rollback candidates\<close>

lemma mset_sorted_reverse: "mset (sorted_reverse k xs) = mset xs"
  by (simp add: sorted_reverse_def)

lemma sorted_reverse_descending:
  "sorted_wrt (\<lambda>a b. k b \<le> k a) (sorted_reverse k xs)"
proof -
  have "sorted (map k (sort_key k (rev xs)))"
    by simp
  then have "sorted_wrt (\<lambda>a b. k a \<le> k b) (sort_key k (rev xs))"
    by (simp add: sorted_map)
  then show ?thesis
    by (simp add: sorted_reverse_def sorted_wrt_rev)
qed

text \<open>
  C8. The rollback-candidate list holds exactly the history records whose exit code is in
  the successful set and whose id is not the current execution's (each as often as the
  history holds it), in descending order of \<^verbatim>\<open>execution_id\<close>.
\<close>

theorem rollback_candidates_exact:
  "mset (get_project_rollback_history current_id hist)
     = mset (filter (rollback_eligible current_id) (case hist of None \<Rightarrow> [] | Some h \<Rightarrow> h))
   \<and> sorted_wrt (\<lambda>a b. execution_sort_key b \<le> execution_sort_key a)
       (get_project_rollback_history current_id hist)
   \<and> list_all (\<lambda>e. (\<exists>c. exit_code e = Some c \<and> c \<in> set list_successful_exit_codes)
                    \<and> execution_id e \<noteq> Some current_id)
       (get_project_rollback_history current_id hist)"
proof -
  let ?h = "case hist of None \<Rightarrow> [] | Some h \<Rightarrow> h"
  let ?r = "get_project_rollback_history current_id hist"
  have r: "?r = sorted_reverse execution_sort_key (filter (rollback_eligible current_id) ?h)"
    by (cases hist)
       (simp_all add: get_project_rollback_history_def sorted_reverse_def)
  have m: "mset ?r = mset (filter (rollback_eligible current_id) ?h)"
    unfolding r by (rule mset_sorted_reverse)
  have s: "sorted_wrt (\<lambda>a b. execution_sort_key b \<le> execution_sort_key a) ?r"
    unfolding r by (rule sorted_reverse_descending)
  have "set ?r = set (filter (rollback_eligible current_id) ?h)"
    using m by (metis set_mset_mset)
  then have "\<forall>e \<in> set ?r. rollback_eligible current_id e"
    by simp
  then have l: "list_all (\<lambda>e. (\<exists>c. exit_code e = Some c \<and> c \<in> set list_successful_exit_codes)
                    \<and> execution_id e \<noteq> Some current_id) ?r"
    unfolding list_all_iff rollback_eligible_def by (auto split: option.splits)
  from m s l show ?thesis by blast
qed

subsection \<open>Poll budget\<close>

lemma deploy_poll_exhausted:
  "(\<forall>i<n. deploy_keeps_polling (remote (k + i))) \<Longrightarrow> deploy_poll remote k n = Inr (False, k + n)"
proof (induction n arbitrary: k)
  case 0
  then show ?case by simp
next
  case (Suc n)
  from Suc.prems have h0: "deploy_keeps_polling (remote k)"
    by (metis add.right_neutral zero_less_Suc)
  have "\<forall>i<n. deploy_keeps_polling (remote (Suc k + i))"
    using Suc.prems by (metis Suc_less_eq add_Suc_shift)
  then have "deploy_poll remote (Suc k) n = Inr (False, Suc k + n)"
    by (rule Suc.IH)
  then show ?case using h0 by (auto simp: deploy_keeps_polling_def)
qed

lemma deploy_attempts_exhausted:
  "a < n \<Longrightarrow> (\<forall>j<a. deploy_keeps_polling (remote (k + j))) \<Longrightarrow> remote (k + a) = 202
   \<Longrightarrow> (\<forall>i<max_poll_attempts. deploy_keeps_polling (remote (Suc (k + a) + i)))
   \<Longrightarrow> deploy_attempts remote k n False = Inl Poll_Limit"
proof (induction a arbitrary: k n)
  case 0
  then obtain m where n: "n = Suc m" by (cases n) auto
  from 0 have "deploy_poll remote (Suc k) max_poll_attempts = Inr (False, Suc k + max_poll_attempts)"
    by (intro deploy_poll_exhausted) simp
  with 0 n show ?case by simp
next
  case (Suc a)
  then obtain m where n: "n = Suc m" and am: "a < m" by (cases n) auto
  from Suc.prems have h0: "deploy_keeps_polling (remote k)"
    by (metis add.right_neutral zero_less_Suc)
  have 1: "\<forall>j<a. deploy_keeps_polling (remote (Suc k + j))"
    using Suc.prems(2) by (metis Suc_less_eq add_Suc_shift)
  have 2: "remote (Suc k + a) = 202" using Suc.prems(3) by simp
  have 3: "\<forall>i<max_poll_attempts. deploy_keeps_polling (remote (Suc (Suc k + a) + i))"
    using Suc.prems(4) by simp
  have "deploy_attempts remote (Suc k) m False = Inl Poll_Limit"
    using Suc.IH[OF am 1 2 3] .
  then show ?case using h0 n by (auto simp: deploy_keeps_polling_def)
qed

lemma revert_poll_exhausted:
  "(\<forall>i<n. revert_keeps_polling (remote (k + i))) \<Longrightarrow> revert_poll remote k n = 408"
proof (induction n arbitrary: k)
  case 0
  then show ?case by simp
next
  case (Suc n)
  from Suc.prems have h0: "revert_keeps_polling (remote k)"
    by (metis add.right_neutral zero_less_Suc)
  have "\<forall>i<n. revert_keeps_polling (remote (Suc k + i))"
    using Suc.prems by (metis Suc_less_eq add_Suc_shift)
  then have "revert_poll remote (Suc k) n = 408"
    by (rule Suc.IH)
  then show ?case using h0 by (auto simp: revert_keeps_polling_def)
qed

lemma revert_attempts_exhausted:
  "a < n \<Longrightarrow> (\<forall>j<a. revert_keeps_polling (remote (k + j))) \<Longrightarrow> remote (k + a) = 202
   \<Longrightarrow> (\<forall>i<max_poll_attempts. revert_keeps_polling (remote (Suc (k + a) + i)))
   \<Longrightarrow> revert_attempts remote k n = 408"
proof (induction a arbitrary: k n)
  case 0
  then obtain m where n: "n = Suc m" by (cases n) auto
  from 0 have "revert_poll remote (Suc k) max_poll_attempts = 408"
    by (intro revert_poll_exhausted) simp
  with 0 n show ?case by simp
next
  case (Suc a)
  then obtain m where n: "n = Suc m" and am: "a < m" by (cases n) auto
  from Suc.prems have h0: "revert_keeps_polling (remote k)"
    by (metis add.right_neutral zero_less_Suc)
  have 1: "\<forall>j<a. revert_keeps_polling (remote (Suc k + j))"
    using Suc.prems(2) by (metis Suc_less_eq add_Suc_shift)
  have 2: "remote (Suc k + a) = 202" using Suc.prems(3) by simp
  have 3: "\<forall>i<max_poll_attempts. revert_keeps_polling (remote (Suc (Suc k + a) + i))"
    using Suc.prems(4) by simp
  have "revert_attempts remote (Suc k) m = 408"
    using Suc.IH[OF am 1 2 3] .
  then show ?case using h0 n by (auto simp: revert_keeps_polling_def)
qed

lemma delete_poll_exhausted:
  "(\<forall>i<n. delete_keeps_polling (remote (k + i))) \<Longrightarrow> delete_poll remote k n = Inr False"
proof (induction n arbitrary: k)
  case 0
  then show ?case by simp
next
  case (Suc n)
  from Suc.prems have h0: "delete_keeps_polling (remote k)"
    by (metis add.right_neutral zero_less_Suc)
  have "\<forall>i<n. delete_keeps_polling (remote (Suc k + i))"
    using Suc.prems by (metis Suc_less_eq add_Suc_shift)
  then have "delete_poll remote (Suc k) n = Inr False"
    by (rule Suc.IH)
  then show ?case using h0 by (auto simp: delete_keeps_polling_def)
qed

lemma delete_attempts_exhausted:
  "a < n \<Longrightarrow> (\<forall>j<a. delete_retries (remote (k + j))) \<Longrightarrow> remote (k + a) = 202
   \<Longrightarrow> (\<forall>i<max_poll_attempts. delete_keeps_polling (remote (Suc (k + a) + i)))
   \<Longrightarrow> delete_attempts remote k n = Inl Poll_Limit"
proof (induction a arbitrary: k n)
  case 0
  then obtain m where n: "n = Suc m" by (cases n) auto
  from 0 have "delete_poll remote (Suc k) max_poll_attempts = Inr False"
    by (intro delete_poll_exhausted) simp
  with 0 n show ?case by simp
next
  case (Suc a)
  then obtain m where n: "n = Suc m" and am: "a < m" by (cases n) auto
  from Suc.prems have h0: "delete_retries (remote k)"
    by (metis add.right_neutral zero_less_Suc)
  have 1: "\<forall>j<a. delete_retries (remote (Suc k + j))"
    using Suc.prems(2) by (metis Suc_less_eq add_Suc_shift)
  have 2: "remote (Suc k + a) = 202" using Suc.prems(3) by simp
  have 3: "\<forall>i<max_poll_attempts. delete_keeps_polling (remote (Suc (Suc k + a) + i))"
    using Suc.prems(4) by simp
  have "delete_attempts remote (Suc k) m = Inl Poll_Limit"
    using Suc.IH[OF am 1 2 3] .
  then show ?case using h0 n by (auto simp: delete_retries_def)
qed

text \<open>
  C4. For the commit, the revert and the delete of a blueprint: when the initial request
  is accepted (202) at one of the attempts and every one of the ten polls that follow is
  answered by a status on which the loop goes on, the operation is reported as failed.
  \<^verbatim>\<open>deploy_bp\<close> and \<^verbatim>\<open>delete_bp\<close> raise, and their handlers log the error (the steps
  after a completed commit are not run, \<^verbatim>\<open>delete_bp\<close> does not return \<^verbatim>\<open>True\<close>);
  \<^verbatim>\<open>revert_bp\<close> returns the status 408.
\<close>

theorem poll_exhaustion_reported_as_failure:
  assumes "a < max_retries" and "remote a = 202"
  shows "((\<forall>j<a. deploy_keeps_polling (remote j))
            \<and> (\<forall>i<max_poll_attempts. deploy_keeps_polling (remote (Suc a + i)))
          \<longrightarrow> deploy_bp remote stored_id version deploy_comment tv = (Logs_Error Poll_Limit, tv))
       \<and> ((\<forall>j<a. revert_keeps_polling (remote j))
            \<and> (\<forall>i<max_poll_attempts. revert_keeps_polling (remote (Suc a + i)))
          \<longrightarrow> revert_bp remote = 408)
       \<and> ((\<forall>j<a. delete_retries (remote j))
            \<and> (\<forall>i<max_poll_attempts. delete_keeps_polling (remote (Suc a + i)))
          \<longrightarrow> delete_bp remote = Logs_Error Poll_Limit)"
proof (intro conjI impI)
  assume h: "(\<forall>j<a. deploy_keeps_polling (remote j))
            \<and> (\<forall>i<max_poll_attempts. deploy_keeps_polling (remote (Suc a + i)))"
  have "deploy_attempts remote 0 max_retries False = Inl Poll_Limit"
    using assms h by (intro deploy_attempts_exhausted[where a=a]) simp_all
  then show "deploy_bp remote stored_id version deploy_comment tv = (Logs_Error Poll_Limit, tv)"
    by (simp add: deploy_bp_def)
next
  assume h: "(\<forall>j<a. revert_keeps_polling (remote j))
            \<and> (\<forall>i<max_poll_attempts. revert_keeps_polling (remote (Suc a + i)))"
  show "revert_bp remote = 408"
    unfolding revert_bp_def
    using assms h by (intro revert_attempts_exhausted[where a=a]) simp_all
next
  assume h: "(\<forall>j<a. delete_retries (remote j))
            \<and> (\<forall>i<max_poll_attempts. delete_keeps_polling (remote (Suc a + i)))"
  have "delete_attempts remote 0 max_retries = Inl Poll_Limit"
    using assms h by (intro delete_attempts_exhausted[where a=a]) simp_all
  then show "delete_bp remote = Logs_Error Poll_Limit"
    by (simp add: delete_bp_def)
qed

theorem poll_exhaustion_witness:
  "deploy_bp (\<lambda>k. if k = 1 then 202 else 409) (Some ''apaf_id_1'') ''7'' ''commit'' []
       = (Logs_Error Poll_Limit, [])
   \<and> revert_bp (\<lambda>k. if k = 1 then 202 else 409) = 408
   \<and> delete_bp (\<lambda>k. if k = 1 then 202 else 409) = Logs_Error Poll_Limit"
  using poll_exhaustion_reported_as_failure
          [of 1 "\<lambda>k. if k = 1 then 202 else 409" "Some ''apaf_id_1''" "''7''" "''commit''" "[]"]
  by (simp add: max_retries_def max_poll_attempts_def deploy_keeps_polling_def
        revert_keeps_polling_def delete_keeps_polling_def delete_retries_def http_error_def)

subsection \<open>Permanent-revision quota\<close>

text \<open>
  C3, evaluated where the claim and the code part. The blueprint has one old revision
  that is not saved, 25 saved ones, and the revision just committed. The quota is used
  up, so \<^verbatim>\<open>deploy_bp\<close> removes the revision \<^verbatim>\<open>get_oldest_revision\<close> returns: the oldest
  of all revisions, which is the one that is not saved. No permanent slot is freed, and
  keeping the new revision makes 26 saved ones.
\<close>

theorem quota_evicts_unsaved_revision:
  "get_oldest_revision
     (\<lparr>revision_id = ''1'', description = ''manual commit'',
        created_at = Some ''2024-01-01T00:00:00.000000Z'', user_saved = False\<rparr>
      # map (\<lambda>n. \<lparr>revision_id = ''s'' @ replicate n (CHR ''i''), description = ''saved'',
                    created_at = Some ''2025-01-01T00:00:00.000000Z'', user_saved = True\<rparr>)
          [0..<25]
      @ [\<lparr>revision_id = ''27'', description = ''(apaf_id_1) commit'',
           created_at = Some ''2025-06-01T00:00:00.000000Z'', user_saved = False\<rparr>])
   = Some \<lparr>revision_id = ''1'', description = ''manual commit'',
        created_at = Some ''2024-01-01T00:00:00.000000Z'', user_saved = False\<rparr>
   \<and> length (get_permanent_revisions
     (\<lparr>revision_id = ''1'', description = ''manual commit'',
        created_at = Some ''2024-01-01T00:00:00.000000Z'', user_saved = False\<rparr>
      # map (\<lambda>n. \<lparr>revision_id = ''s'' @ replicate n (CHR ''i''), description = ''saved'',
                    created_at = Some ''2025-01-01T00:00:00.000000Z'', user_saved = True\<rparr>)
          [0..<25]
      @ [\<lparr>revision_id = ''27'', description = ''(apaf_id_1) commit'',
           created_at = Some ''2025-06-01T00:00:00.000000Z'', user_saved = False\<rparr>])) = 25
   \<and> length (get_permanent_revisions (snd (deploy_bp (\<lambda>k. 202) (Some ''apaf_id_1'') ''27'' ''commit''
     (\<lparr>revision_id = ''1'', description = ''manual commit'',
        created_at = Some ''2024-01-01T00:00:00.000000Z'', user_saved = False\<rparr>
      # map (\<lambda>n. \<lparr>revision_id = ''s'' @ replicate n (CHR ''i''), description = ''saved'',
                    created_at = Some ''2025-01-01T00:00:00.000000Z'', user_saved = True\<rparr>)
          [0..<25]
      @ [\<lparr>revision_id = ''27'', description = ''(apaf_id_1) commit'',
           created_at = Some ''2025-06-01T00:00:00.000000Z'', user_saved = False\<rparr>])))) = 26"
  by code_simp

subsection \<open>Pending blueprint changes during a rollback\<close>





subsection \<open>Rotation of the execution directories\<close>

lemma rotate_closed_form:
  "sorted_wrt (>) ks \<Longrightarrow> distinct (map fst w)
   \<Longrightarrow> (\<forall>j \<in> fst ` set w. j \<in> set ks \<or> (\<forall>k \<in> set ks. Suc k < j))
   \<Longrightarrow> rotate T ks w =
        (map (\<lambda>(j, d). if j \<in> set ks then (Suc j, d) else (j, d))
           (filter (\<lambda>(j, d). j \<in> set ks \<longrightarrow> Suc j \<le> T) w), True)"
proof (induction ks arbitrary: w)
  case Nil
  then show ?case by (simp add: case_prod_unfold)
next
  case (Cons k ks)
  have sorted: "sorted_wrt (>) ks" and below: "\<forall>k' \<in> set ks. k' < k"
    using Cons.prems(1) by auto
  have knotin: "k \<notin> set ks" using below by auto
  show ?case
  proof (cases "Suc k > T")
    case True
    let ?w1 = "remove_directory k w"
    have d1: "distinct (map fst ?w1)"
      using Cons.prems(2) by (simp add: remove_directory_def distinct_map_filter)
    have k1: "\<forall>j \<in> fst ` set ?w1. j \<in> set ks \<or> (\<forall>k \<in> set ks. Suc k < j)"
      using Cons.prems(3) by (auto simp: remove_directory_def)
    have "rotate T ks ?w1 =
        (map (\<lambda>(j, d). if j \<in> set ks then (Suc j, d) else (j, d))
           (filter (\<lambda>(j, d). j \<in> set ks \<longrightarrow> Suc j \<le> T) ?w1), True)"
      by (rule Cons.IH[OF sorted d1 k1])
    moreover have "filter (\<lambda>(j, d). j \<in> set ks \<longrightarrow> Suc j \<le> T) ?w1
         = filter (\<lambda>(j, d). j \<in> set (k # ks) \<longrightarrow> Suc j \<le> T) w"
      using True by (auto simp: remove_directory_def intro!: filter_cong)
    moreover have "map (\<lambda>(j, d). if j \<in> set ks then (Suc j, d) else (j, d))
           (filter (\<lambda>(j, d). j \<in> set (k # ks) \<longrightarrow> Suc j \<le> T) w)
        = map (\<lambda>(j, d). if j \<in> set (k # ks) then (Suc j, d) else (j, d))
           (filter (\<lambda>(j, d). j \<in> set (k # ks) \<longrightarrow> Suc j \<le> T) w)"
      using True by (auto intro!: map_cong)
    ultimately show ?thesis using True by simp
  next
    case False
    have free: "Suc k \<notin> fst ` set w"
    proof
      assume "Suc k \<in> fst ` set w"
      with Cons.prems(3) have "Suc k \<in> set (k # ks) \<or> (\<forall>k' \<in> set (k # ks). Suc k' < Suc k)"
        by blast
      then show False using below by auto
    qed
    let ?w1 = "map (\<lambda>(j, d). if j = k then (Suc k, d) else (j, d)) w"
    have ren: "os_rename k (Suc k) w = Some ?w1"
      using free by (simp add: os_rename_def)
    have keys1: "map fst ?w1 = map (\<lambda>j. if j = k then Suc k else j) (map fst w)"
      by (induction w) auto
    have inj: "inj_on (\<lambda>j. if j = k then Suc k else j) (set (map fst w))"
      using free by (force simp: inj_on_def)
    have d1: "distinct (map fst ?w1)"
      unfolding keys1 by (rule iffD2[OF distinct_map]) (rule conjI[OF Cons.prems(2) inj])
    have k1: "\<forall>j \<in> fst ` set ?w1. j \<in> set ks \<or> (\<forall>k \<in> set ks. Suc k < j)"
    proof
      fix j assume "j \<in> fst ` set ?w1"
      then have "j \<in> set (map fst ?w1)" by (simp only: set_map)
      then have "j \<in> (\<lambda>j. if j = k then Suc k else j) ` (fst ` set w)"
        unfolding keys1 by (simp only: set_map)
      then obtain i where i: "i \<in> fst ` set w" and j: "j = (if i = k then Suc k else i)"
        by blast
      show "j \<in> set ks \<or> (\<forall>k \<in> set ks. Suc k < j)"
      proof (cases "i = k")
        case True
        then show ?thesis using j below by auto
      next
        case False
        then show ?thesis using j i Cons.prems(3) by auto
      qed
    qed
    have "rotate T ks ?w1 =
        (map (\<lambda>(j, d). if j \<in> set ks then (Suc j, d) else (j, d))
           (filter (\<lambda>(j, d). j \<in> set ks \<longrightarrow> Suc j \<le> T) ?w1), True)"
      by (rule Cons.IH[OF sorted d1 k1])
    moreover have "map (\<lambda>(j, d). if j \<in> set ks then (Suc j, d) else (j, d))
           (filter (\<lambda>(j, d). j \<in> set ks \<longrightarrow> Suc j \<le> T) ?w1)
        = map (\<lambda>(j, d). if j \<in> set (k # ks) then (Suc j, d) else (j, d))
           (filter (\<lambda>(j, d). j \<in> set (k # ks) \<longrightarrow> Suc j \<le> T) w)"
      using free False knotin below Cons.prems(3)
    proof (induction w)
      case Nil
      then show ?case by simp
    next
      case (Cons e w)
      obtain j d where e: "e = (j, d)" by (cases e)
      have IH: "map (\<lambda>(j, d). if j \<in> set ks then (Suc j, d) else (j, d))
           (filter (\<lambda>(j, d). j \<in> set ks \<longrightarrow> Suc j \<le> T)
              (map (\<lambda>(j, d). if j = k then (Suc k, d) else (j, d)) w))
        = map (\<lambda>(j, d). if j \<in> set (k # ks) then (Suc j, d) else (j, d))
           (filter (\<lambda>(j, d). j \<in> set (k # ks) \<longrightarrow> Suc j \<le> T) w)"
        using Cons.prems by (intro Cons.IH) auto
      have sk: "Suc k \<notin> set ks" using Cons.prems(4) by auto
      have jne: "j \<noteq> Suc k" using Cons.prems(1) e by auto
      show ?case
        using IH e sk jne Cons.prems(2,3) by (cases "j = k") auto
    qed
    ultimately show ?thesis using False ren by simp
  qed
qed

lemma rotate_all:
  assumes "distinct (map fst w)"
  shows "rotate T (rev (sort (map fst w))) w =
           (map (\<lambda>(j, d). (Suc j, d)) (filter (\<lambda>(j, d). Suc j \<le> T) w), True)"
proof -
  let ?ks = "rev (sort (map fst w))"
  have "sorted_wrt (<) (sort (map fst w))"
    using assms by (simp add: strict_sorted_iff)
  then have s: "sorted_wrt (>) ?ks"
    by (simp add: sorted_wrt_rev)
  have ks: "set ?ks = fst ` set w" by simp
  have "rotate T ?ks w =
        (map (\<lambda>(j, d). if j \<in> set ?ks then (Suc j, d) else (j, d))
           (filter (\<lambda>(j, d). j \<in> set ?ks \<longrightarrow> Suc j \<le> T) w), True)"
    using s assms by (intro rotate_closed_form) (simp_all only: ks, simp)
  moreover have "filter (\<lambda>(j, d). j \<in> set ?ks \<longrightarrow> Suc j \<le> T) w
                   = filter (\<lambda>(j, d). Suc j \<le> T) w"
    unfolding ks by (rule filter_cong) force+
  moreover have "map (\<lambda>(j, d). if j \<in> set ?ks then (Suc j, d) else (j, d))
                    (filter (\<lambda>(j, d). Suc j \<le> T) w)
                   = map (\<lambda>(j, d). (Suc j, d)) (filter (\<lambda>(j, d). Suc j \<le> T) w)"
    unfolding ks by (rule map_cong) force+
  ultimately show ?thesis by simp
qed

lemma fst_shifted:
  "map fst (map (\<lambda>(j, d). (Suc j, d)) (filter (\<lambda>(j, d). Suc j \<le> T) w))
     = map Suc (filter (\<lambda>j. Suc j \<le> T) (map fst w))"
  by (induction w) auto

lemma distinct_shifted:
  "distinct (map fst w) \<Longrightarrow>
   distinct (map fst (map (\<lambda>(j, d). (Suc j, d)) (filter (\<lambda>(j, d). Suc j \<le> T) w)))"
  unfolding fst_shifted by (simp add: distinct_map)

lemma length_shifted:
  assumes "distinct (map fst w)"
  shows "length (map (\<lambda>(j, d). (Suc j, d)) (filter (\<lambda>(j, d). Suc j \<le> T) w)) \<le> T"
proof -
  let ?ks = "map Suc (filter (\<lambda>j. Suc j \<le> T) (map fst w))"
  have d: "distinct ?ks" using assms by (simp add: distinct_map)
  have "set ?ks \<subseteq> {1..T}" by auto
  then have "card (set ?ks) \<le> card {1..T}" by (intro card_mono) simp_all
  also have "card {1..T} = T" by simp
  finally have "card (set ?ks) \<le> T" .
  with distinct_card[OF d] have "length ?ks \<le> T" by (simp only:)
  moreover have "length (map (\<lambda>(j, d). (Suc j, d)) (filter (\<lambda>(j, d). Suc j \<le> T) w))
                   = length ?ks"
    using fst_shifted[of T w] by (metis length_map)
  ultimately show ?thesis by (simp only:)
qed

lemma map_of_shifted_Suc:
  "map_of (map (\<lambda>(j, d). (Suc j, d)) (filter (\<lambda>(j, d). Suc j \<le> T) w)) (Suc k)
     = (if Suc k \<le> T then map_of w k else None)"
  by (induction w) auto

lemma map_of_shifted_0:
  "map_of (map (\<lambda>(j, d). (Suc j, d)) (filter (\<lambda>(j, d). Suc j \<le> T) w)) 0 = None"
  by (induction w) auto

lemma zero_notin_shifted:
  "0 \<notin> fst ` set (map (\<lambda>(j, d). (Suc j, d)) (filter (\<lambda>(j, d). Suc j \<le> T) w))"
  by (induction w) auto

lemma fst_update_dir: "map fst (update_dir k f w) = map fst w"
  by (induction w) (auto simp: update_dir_def)

lemma map_of_update_dir:
  "map_of (update_dir k f w) j = (if j = k then map_option f (map_of w k) else map_of w j)"
  by (induction w) (auto simp: update_dir_def)

lemma input_tgz_bring_from_previous:
  "input_tgz (bring_from_previous env d1 d0) = input_tgz d0"
  by (simp add: bring_from_previous_def Let_def split: option.splits)

text \<open>One call, from any listing with distinct folder numbers.\<close>

lemma manage_execution_dirs_step:
  assumes "distinct (map fst w)"
  shows "distinct (map fst (manage_execution_dirs T env w))"
    and "length (manage_execution_dirs T env w) \<le> T + 1"
    and "\<exists>d. map_of (manage_execution_dirs T env w) 0 = Some d
             \<and> input_tgz d = input_folder env"
    and "map_of (manage_execution_dirs T env w) (Suc k)
           = (if Suc k \<le> T then map_of w k else None)"
proof -
  let ?w1 = "map (\<lambda>(j, d). (Suc j, d)) (filter (\<lambda>(j, d). Suc j \<le> T) w)"
  let ?w2 = "?w1 @ [(0, new_execution_dir (scope_data env))]"
  let ?w3 = "case input_folder env of
               None \<Rightarrow> ?w2
             | Some i \<Rightarrow> update_dir 0 (\<lambda>d. d\<lparr>input_tgz := Some i\<rparr>) ?w2"
  let ?w4 = "case map_of ?w3 1 of
               None \<Rightarrow> ?w3
             | Some d1 \<Rightarrow> update_dir 0 (bring_from_previous env d1) ?w3"
  have m: "manage_execution_dirs T env w = ?w4"
    using zero_notin_shifted[of T w]
    by (simp add: manage_execution_dirs_def rotate_all[OF assms] Let_def)
  have k2: "map fst ?w2 = map fst ?w1 @ [0]" by simp
  have k3: "map fst ?w3 = map fst ?w2"
    by (simp add: fst_update_dir split: option.splits)
  have k4: "map fst ?w4 = map fst ?w3"
    by (simp add: fst_update_dir split: option.splits)
  have d1: "distinct (map fst ?w1)" by (rule distinct_shifted[OF assms])
  have "0 \<notin> set (map fst ?w1)" unfolding fst_shifted by auto
  then have "distinct (map fst ?w2)" using d1 unfolding k2 by simp
  then show "distinct (map fst (manage_execution_dirs T env w))"
    unfolding m k4 k3 .
  have "length ?w4 = length (map fst ?w4)" by (simp only: length_map)
  also have "\<dots> = length ?w1 + 1" unfolding k4 k3 k2 by simp
  finally show "length (manage_execution_dirs T env w) \<le> T + 1"
    unfolding m using length_shifted[OF assms, of T] by simp
  have m2: "map_of ?w2 0 = Some (new_execution_dir (scope_data env))"
    by (simp add: map_of_shifted_0 map_add_def)
  have "\<exists>d. map_of ?w3 0 = Some d \<and> input_tgz d = input_folder env"
    using m2 by (cases "input_folder env")
      (simp_all add: map_of_update_dir new_execution_dir_def)
  then obtain d where d: "map_of ?w3 0 = Some d" "input_tgz d = input_folder env" by blast
  have "\<exists>d. map_of ?w4 0 = Some d \<and> input_tgz d = input_folder env"
    using d by (cases "map_of ?w3 1")
      (simp_all add: map_of_update_dir input_tgz_bring_from_previous)
  then show "\<exists>d. map_of (manage_execution_dirs T env w) 0 = Some d
             \<and> input_tgz d = input_folder env"
    unfolding m .
  have "map_of ?w2 (Suc k) = map_of ?w1 (Suc k)"
    by (simp add: map_add_def split: option.splits)
  then have "map_of ?w3 (Suc k) = map_of ?w1 (Suc k)"
    by (cases "input_folder env") (simp_all add: map_of_update_dir)
  then have "map_of ?w4 (Suc k) = map_of ?w1 (Suc k)"
    by (cases "map_of ?w3 1") (simp_all add: map_of_update_dir)
  then show "map_of (manage_execution_dirs T env w) (Suc k)
           = (if Suc k \<le> T then map_of w k else None)"
    unfolding m by (simp only: map_of_shifted_Suc)
qed

lemma manage_execution_dirs_calls:
  assumes "distinct (map fst w)"
  shows "distinct (map fst (foldl (\<lambda>w env. manage_execution_dirs T env w) w calls))"
  using assms
proof (induction calls arbitrary: w)
  case Nil
  then show ?case by simp
next
  case (Cons env calls)
  have "distinct (map fst (manage_execution_dirs T env w))"
    by (rule manage_execution_dirs_step(1)[OF Cons.prems])
  then show ?case using Cons.IH by simp
qed

text \<open>
  C2. From any wip listing whose folder numbers are distinct, after every non-empty
  sequence of calls at \<^verbatim>\<open>initial_stage\<close> with threshold \<open>T\<close>: at most \<open>T + 1\<close>
  \<^verbatim>\<open>execution_<N>\<close> directories are retained, and \<^verbatim>\<open>execution_0\<close> exists and its input
  snapshot is the input folder of the last call (no snapshot when that folder does not
  exist). In one call every \<^verbatim>\<open>execution_k\<close> with \<open>k + 1 \<le> T\<close> becomes
  \<^verbatim>\<open>execution_{k+1}\<close>, and no other directory with a positive number remains.
\<close>

theorem rotation_invariant:
  assumes "distinct (map fst w)" and "calls \<noteq> []"
  shows "length (foldl (\<lambda>w env. manage_execution_dirs T env w) w calls) \<le> T + 1
       \<and> (\<exists>d. map_of (foldl (\<lambda>w env. manage_execution_dirs T env w) w calls) 0 = Some d
              \<and> input_tgz d = input_folder (last calls))
       \<and> (\<forall>k. map_of (manage_execution_dirs T env w) (Suc k)
                 = (if Suc k \<le> T then map_of w k else None))"
proof -
  obtain cs c where calls: "calls = cs @ [c]"
    using assms(2) by (metis rev_exhaust)
  let ?w' = "foldl (\<lambda>w env. manage_execution_dirs T env w) w cs"
  have d: "distinct (map fst ?w')"
    by (rule manage_execution_dirs_calls[OF assms(1)])
  have f: "foldl (\<lambda>w env. manage_execution_dirs T env w) w calls
             = manage_execution_dirs T c ?w'"
    unfolding calls by simp
  have l: "last calls = c" unfolding calls by simp
  show ?thesis
    unfolding f l
    using manage_execution_dirs_step(2,3)[OF d, of T c]
          manage_execution_dirs_step(4)[OF assms(1), of T env]
    by blast
qed

theorem rotation_invariant_witness:
  "length (foldl (\<lambda>w env. manage_execution_dirs 1 env w)
             ([] :: (string, string, string) wip)
             [\<lparr>scope_data = ''run 1'', input_folder = Some ''input v1'', post_rollback = False,
                input_tgz_reverted_file = None\<rparr>,
              \<lparr>scope_data = ''run 2'', input_folder = Some ''input v2'', post_rollback = False,
                input_tgz_reverted_file = None\<rparr>,
              \<lparr>scope_data = ''run 3'', input_folder = Some ''input v3'', post_rollback = False,
                input_tgz_reverted_file = None\<rparr>]) \<le> 2
   \<and> map_of (foldl (\<lambda>w env. manage_execution_dirs 1 env w)
             ([] :: (string, string, string) wip)
             [\<lparr>scope_data = ''run 1'', input_folder = Some ''input v1'', post_rollback = False,
                input_tgz_reverted_file = None\<rparr>,
              \<lparr>scope_data = ''run 2'', input_folder = Some ''input v2'', post_rollback = False,
                input_tgz_reverted_file = None\<rparr>,
              \<lparr>scope_data = ''run 3'', input_folder = Some ''input v3'', post_rollback = False,
                input_tgz_reverted_file = None\<rparr>]) 0
       = Some \<lparr>execution_data_file = Some ''run 3'', input_tgz = Some ''input v3'',
               input_tgz_rollback = Some ''input v2'', input_tgz_reverted = None,
               tfstate_file = None\<rparr>"
proof -
  have 1: "distinct (map fst ([] :: (string, string, string) wip))" by simp
  have 2: "[\<lparr>scope_data = ''run 1'', input_folder = Some ''input v1'', post_rollback = False,
                input_tgz_reverted_file = None\<rparr>,
              \<lparr>scope_data = ''run 2'', input_folder = Some ''input v2'', post_rollback = False,
                input_tgz_reverted_file = None\<rparr>,
              \<lparr>scope_data = ''run 3'', input_folder = Some ''input v3'', post_rollback = False,
                input_tgz_reverted_file = None\<rparr>] \<noteq> []" by simp
  have 3: "map_of (foldl (\<lambda>w env. manage_execution_dirs 1 env w)
             ([] :: (string, string, string) wip)
             [\<lparr>scope_data = ''run 1'', input_folder = Some ''input v1'', post_rollback = False,
                input_tgz_reverted_file = None\<rparr>,
              \<lparr>scope_data = ''run 2'', input_folder = Some ''input v2'', post_rollback = False,
                input_tgz_reverted_file = None\<rparr>,
              \<lparr>scope_data = ''run 3'', input_folder = Some ''input v3'', post_rollback = False,
                input_tgz_reverted_file = None\<rparr>]) 0
       = Some \<lparr>execution_data_file = Some ''run 3'', input_tgz = Some ''input v3'',
               input_tgz_rollback = Some ''input v2'', input_tgz_reverted = None,
               tfstate_file = None\<rparr>"
    by code_simp
  from rotation_invariant[OF 1 2, of 1] 3 show ?thesis by (simp add: numeral_2_eq_2)
qed

subsection \<open>The diff engine\<close>







text \<open>
  For comparison with the next theorem: when the object type is a list of objects, a
  change of a name is reported as the old object removed and the new one added.
\<close>

lemma rename_in_list_reported:
  "process_diff
     [(''values_changed'',
       Changes_Dict
         [(''root'' @ open_key @ ''logical_devices'' @ close_key @ ''[0]''
             @ open_key @ ''name'' @ close_key,
           YDict [(''new_value'', YStr ''ld_B''), (''old_value'', YStr ''ld_A'')])])]
     (Some (YDict [(''logical_devices'',
          YList [YDict [(''name'', YStr ''ld_A''), (''panels'', YInt 2),
                        (''speed'', YStr ''10G''), (''ports'', YInt 48)]])]))
     (Some (YDict [(''logical_devices'',
          YList [YDict [(''name'', YStr ''ld_B''), (''panels'', YInt 2),
                        (''speed'', YStr ''10G''), (''ports'', YInt 48)]])]))
     None
   = [(''logical_devices'',
       \<lparr>added = [YDict [(''name'', YStr ''ld_B''), (''panels'', YInt 2),
                        (''speed'', YStr ''10G''), (''ports'', YInt 48)]],
        changed = [],
        removed = [YDict [(''name'', YStr ''ld_A''), (''panels'', YInt 2),
                          (''speed'', YStr ''10G''), (''ports'', YInt 48)]]\<rparr>)]"
  by code_simp

text \<open>
  C1, evaluated where the claim and the code part. The object type keeps its objects
  under \<^verbatim>\<open>user_defined\<close>, the layout the first-execution branch reads. One object is
  renamed from \<^verbatim>\<open>ld_A\<close> to \<^verbatim>\<open>ld_B\<close> and nothing else changes, so the diff is one
  \<^verbatim>\<open>values_changed\<close> entry at the path of the name. \<^verbatim>\<open>find_nested_dict_entry\<close> iterates
  over the dictionary under the object type, meets the key \<^verbatim>\<open>user_defined\<close>, fails on
  \<^verbatim>\<open>.get\<close> and returns \<^verbatim>\<open>None\<close>: the object is reported neither as removed nor as added.
\<close>

theorem rename_under_user_defined_lost:
  "process_diff
     [(''values_changed'',
       Changes_Dict
         [(''root'' @ open_key @ ''logical_devices'' @ close_key
             @ open_key @ ''user_defined'' @ close_key @ ''[0]''
             @ open_key @ ''name'' @ close_key,
           YDict [(''new_value'', YStr ''ld_B''), (''old_value'', YStr ''ld_A'')])])]
     (Some (YDict [(''logical_devices'',
        YDict [(''user_defined'',
          YList [YDict [(''name'', YStr ''ld_A''), (''panels'', YInt 2),
                        (''speed'', YStr ''10G''), (''ports'', YInt 48)]])])]))
     (Some (YDict [(''logical_devices'',
        YDict [(''user_defined'',
          YList [YDict [(''name'', YStr ''ld_B''), (''panels'', YInt 2),
                        (''speed'', YStr ''10G''), (''ports'', YInt 48)]])])]))
     None
   = [(''logical_devices'', \<lparr>added = [], changed = [], removed = []\<rparr>)]"
  by code_simp

subsection \<open>Order of the cleanup\<close>

lemma delete_interface_maps_calls:
  "delete_interface_maps escapes names = (calls, completed) \<Longrightarrow>
   (\<exists>m \<le> length names. calls = map Delete_Interface_Map (take m names))
   \<and> (completed \<longrightarrow> calls = map Delete_Interface_Map names)"
proof (induction names arbitrary: calls completed)
  case Nil
  then show ?case by simp
next
  case (Cons n names)
  show ?case
  proof (cases "escapes (Delete_Interface_Map n)")
    case True
    with Cons.prems have c: "calls = [Delete_Interface_Map n]" "\<not> completed" by auto
    have "calls = map Delete_Interface_Map (take 1 (n # names))" using c by simp
    then show ?thesis using c(2) by (metis One_nat_def Suc_leI length_Cons zero_less_Suc)
  next
    case False
    obtain calls' completed' where r: "delete_interface_maps escapes names = (calls', completed')"
      by (cases "delete_interface_maps escapes names")
    with Cons.prems False have c: "calls = Delete_Interface_Map n # calls'" "completed = completed'"
      by auto
    from Cons.IH[OF r] obtain m where m: "m \<le> length names"
        "calls' = map Delete_Interface_Map (take m names)"
        and full: "completed' \<longrightarrow> calls' = map Delete_Interface_Map names"
      by blast
    have "calls = map Delete_Interface_Map (take (Suc m) (n # names))"
      using c m by simp
    moreover have "Suc m \<le> length (n # names)" using m by simp
    ultimately have A: "\<exists>m\<le>length (n # names).
        calls = map Delete_Interface_Map (take m (n # names))"
      by blast
    have B: "completed \<longrightarrow> calls = map Delete_Interface_Map (n # names)"
      using c full by simp
    show ?thesis using A B by (rule conjI)
  qed
qed

lemma cleanup_of_not_interface_map:
  "cleanup_of menu apstra_object added_name \<noteq> Call (Delete_Interface_Map n)"
  by (simp add: cleanup_of_def)

lemma remove_added_no_interface_map:
  "Delete_Interface_Map n \<notin> set (fst (remove_added escapes menu apstra_object entries))"
proof (induction entries)
  case Nil
  then show ?case by simp
next
  case (Cons entry entries)
  show ?case
  proof (cases "entry_name entry")
    case None
    then show ?thesis by simp
  next
    case (Some added_name)
    show ?thesis
    proof (cases "cleanup_of menu apstra_object added_name")
      case (Call c)
      then have "c \<noteq> Delete_Interface_Map n"
        using cleanup_of_not_interface_map[of menu apstra_object added_name n] by auto
      then show ?thesis
        using Some Call Cons.IH by (auto simp: case_prod_unfold Let_def)
    next
      case Undefined_Function
      then show ?thesis using Some Cons.IH by simp
    next
      case No_Call
      then show ?thesis using Some Cons.IH by simp
    qed
  qed
qed

lemma remove_objects_no_interface_map:
  "Delete_Interface_Map n \<notin> set (fst (remove_objects escapes menu objs))"
proof (induction objs)
  case Nil
  then show ?case by simp
next
  case (Cons obj objs)
  obtain apstra_object change_types where obj: "obj = (apstra_object, change_types)"
    by (cases obj)
  let ?head = "if added change_types \<noteq> []
             then remove_added escapes menu apstra_object (added change_types)
             else if changed change_types \<noteq> [] \<and> apstra_object = ''configlet_contents''
             then (case changed_names (changed change_types) of
                     None \<Rightarrow> ([], False)
                   | Some names \<Rightarrow> (map Delete_Configlet names, True))
             else ([], True)"
  obtain calls completed where h: "?head = (calls, completed)"
    by (cases ?head)
  have hc: "Delete_Interface_Map n \<notin> set calls"
  proof (cases "added change_types \<noteq> []")
    case True
    then have "calls = fst (remove_added escapes menu apstra_object (added change_types))"
      using h by simp
    then show ?thesis by (simp only: remove_added_no_interface_map not_False_eq_True)
  next
    case False
    then have "calls = [] \<or> (\<exists>names. calls = map Delete_Configlet names)"
      using h by (auto split: if_splits option.splits)
    then show ?thesis by auto
  qed
  obtain calls' completed' where t: "remove_objects escapes menu objs = (calls', completed')"
    by (cases "remove_objects escapes menu objs")
  have tc: "Delete_Interface_Map n \<notin> set calls'"
    using Cons.IH t by simp
  have "remove_objects escapes menu (obj # objs)
          = (if \<not> completed then (calls, False) else (calls @ calls', completed'))"
    unfolding obj remove_objects.simps Let_def h t by simp
  then show ?case using hc tc by simp
qed

lemma remove_menus_no_interface_map:
  "Delete_Interface_Map n \<notin> set (fst (remove_menus escapes input_diff))"
proof (induction input_diff)
  case Nil
  then show ?case by simp
next
  case (Cons m menus)
  obtain menu apstra_objects where m: "m = (menu, apstra_objects)" by (cases m)
  obtain calls completed where h: "remove_objects escapes menu apstra_objects = (calls, completed)"
    by (cases "remove_objects escapes menu apstra_objects")
  have hc: "Delete_Interface_Map n \<notin> set calls"
    using remove_objects_no_interface_map[of n escapes menu apstra_objects] h by simp
  obtain calls' completed' where t: "remove_menus escapes menus = (calls', completed')"
    by (cases "remove_menus escapes menus")
  have tc: "Delete_Interface_Map n \<notin> set calls'"
    using Cons.IH t by simp
  have "remove_menus escapes (m # menus)
          = (if \<not> completed then (calls, False) else (calls @ calls', completed'))"
    unfolding m remove_menus.simps Let_def h t by simp
  then show ?case using hc tc by simp
qed

lemma remove_non_bp_added_shape:
  "\<exists>names rest. remove_non_bp_added escapes input_diff = map Delete_Interface_Map names @ rest
      \<and> (\<forall>n. Delete_Interface_Map n \<notin> set rest)
      \<and> (rest \<noteq> [] \<longrightarrow> collect_menus input_diff [] = Some names)"
proof (cases "collect_menus input_diff []")
  case None
  then have "remove_non_bp_added escapes input_diff = map Delete_Interface_Map [] @ []"
    by (simp add: remove_non_bp_added_def)
  then show ?thesis
    by (intro exI[of _ "[]"]) simp
next
  case (Some ims)
  obtain calls completed where r: "delete_interface_maps escapes ims = (calls, completed)"
    by (cases "delete_interface_maps escapes ims")
  from delete_interface_maps_calls[OF r] obtain m where
      m: "calls = map Delete_Interface_Map (take m ims)"
      and full: "completed \<longrightarrow> calls = map Delete_Interface_Map ims"
    by blast
  have unf: "remove_non_bp_added escapes input_diff
               = (if \<not> completed then calls else calls @ fst (remove_menus escapes input_diff))"
    by (simp add: remove_non_bp_added_def Some r)
  show ?thesis
  proof (cases completed)
    case True
    have 1: "remove_non_bp_added escapes input_diff
                 = map Delete_Interface_Map ims @ fst (remove_menus escapes input_diff)"
      using unf True full by simp
    have 2: "\<forall>n. Delete_Interface_Map n \<notin> set (fst (remove_menus escapes input_diff))"
      by (simp add: remove_menus_no_interface_map)
    have 3: "fst (remove_menus escapes input_diff) \<noteq> [] \<longrightarrow>
               collect_menus input_diff [] = Some ims"
      using Some by simp
    from 1 2 3 show ?thesis
      by (intro exI[of _ ims] exI[of _ "fst (remove_menus escapes input_diff)"] conjI)
  next
    case False
    have 1: "remove_non_bp_added escapes input_diff
                 = map Delete_Interface_Map (take m ims) @ []"
      using unf False m by simp
    then show ?thesis
      by (intro exI[of _ "take m ims"] exI[of _ "[]"]) simp
  qed
qed

text \<open>
  C7. Whatever the diff and whatever the delete functions do: in the sequence of calls
  \<^verbatim>\<open>remove_non_bp_added\<close> makes, every call that deletes an interface map comes before
  every call that deletes a logical device; and when a logical device is deleted at all,
  every added interface map the first loop collected has had its delete call.
\<close>

theorem interface_maps_deleted_first:
  "(\<forall>i j n l. i < length (remove_non_bp_added escapes input_diff)
            \<and> j < length (remove_non_bp_added escapes input_diff)
            \<and> remove_non_bp_added escapes input_diff ! i = Delete_Interface_Map n
            \<and> remove_non_bp_added escapes input_diff ! j = Delete_Logical_Device l
          \<longrightarrow> i < j)
   \<and> (\<forall>l names n. Delete_Logical_Device l \<in> set (remove_non_bp_added escapes input_diff)
            \<and> collect_menus input_diff [] = Some names \<and> n \<in> set names
          \<longrightarrow> Delete_Interface_Map n \<in> set (remove_non_bp_added escapes input_diff))"
proof -
  let ?t = "remove_non_bp_added escapes input_diff"
  obtain names rest where t: "?t = map Delete_Interface_Map names @ rest"
      and rest: "\<forall>n. Delete_Interface_Map n \<notin> set rest"
      and full: "rest \<noteq> [] \<longrightarrow> collect_menus input_diff [] = Some names"
    using remove_non_bp_added_shape by blast
  let ?k = "length names"
  have order: "i < j" if i: "i < length ?t" and j: "j < length ?t"
      and ti: "?t ! i = Delete_Interface_Map n" and tj: "?t ! j = Delete_Logical_Device l"
    for i j n l
  proof -
    have "i < ?k"
    proof (rule ccontr)
      assume "\<not> i < ?k"
      then have "?t ! i = rest ! (i - ?k)" and "i - ?k < length rest"
        using i unfolding t by (simp_all add: nth_append)
      then have "Delete_Interface_Map n \<in> set rest" using ti by (metis nth_mem)
      then show False using rest by blast
    qed
    moreover have "\<not> j < ?k"
    proof
      assume "j < ?k"
      then have "?t ! j = Delete_Interface_Map (names ! j)"
        unfolding t by (simp add: nth_append)
      then show False using tj by simp
    qed
    ultimately show ?thesis by simp
  qed
  have all: "Delete_Interface_Map n \<in> set ?t"
    if l: "Delete_Logical_Device l \<in> set ?t" and c: "collect_menus input_diff [] = Some names'"
      and n: "n \<in> set names'"
    for l names' n
  proof -
    have "Delete_Logical_Device l \<in> set rest" using l unfolding t by auto
    then have "rest \<noteq> []" by auto
    then have "names' = names" using full c by simp
    then show ?thesis using n unfolding t by simp
  qed
  show ?thesis using order all by blast
qed


theorem interface_maps_deleted_first_witness:
  "remove_non_bp_added (\<lambda>c. False)
     [(''design'',
       [(''logical_devices'',
         \<lparr>added = [YDict [(''name'', YStr ''ld1'')]], changed = [], removed = []\<rparr>),
        (''interface_maps'',
         \<lparr>added = [YDict [(''name'', YStr ''im1'')]], changed = [], removed = []\<rparr>)])]
   = [Delete_Interface_Map (YStr ''im1''), Delete_Logical_Device (YStr ''ld1'')]
   \<and> (0::nat) < 1"
proof -
  let ?d = "[(''design'',
       [(''logical_devices'',
         \<lparr>added = [YDict [(''name'', YStr ''ld1'')]], changed = [], removed = []\<rparr>),
        (''interface_maps'',
         \<lparr>added = [YDict [(''name'', YStr ''im1'')]], changed = [], removed = []\<rparr>)])]"
  have e: "remove_non_bp_added (\<lambda>c. False) ?d
             = [Delete_Interface_Map (YStr ''im1''), Delete_Logical_Device (YStr ''ld1'')]"
    by code_simp
  have "\<forall>i j n l. i < length (remove_non_bp_added (\<lambda>c. False) ?d)
            \<and> j < length (remove_non_bp_added (\<lambda>c. False) ?d)
            \<and> remove_non_bp_added (\<lambda>c. False) ?d ! i = Delete_Interface_Map n
            \<and> remove_non_bp_added (\<lambda>c. False) ?d ! j = Delete_Logical_Device l
          \<longrightarrow> i < j"
    using interface_maps_deleted_first[of "\<lambda>c. False" ?d] by (rule conjunct1)
  then have "0 < length (remove_non_bp_added (\<lambda>c. False) ?d)
            \<and> 1 < length (remove_non_bp_added (\<lambda>c. False) ?d)
            \<and> remove_non_bp_added (\<lambda>c. False) ?d ! 0 = Delete_Interface_Map (YStr ''im1'')
            \<and> remove_non_bp_added (\<lambda>c. False) ?d ! 1 = Delete_Logical_Device (YStr ''ld1'')
          \<longrightarrow> (0::nat) < 1"
    by (elim allE)
  then have "(0::nat) < 1" unfolding e by simp
  with e show ?thesis by (rule conjI)
qed

end
